theory Spec2Isabelle
  imports Complex_Main
begin

section \<open>The Flappy game core of \<open>main.js\<close>\<close>

text \<open>
  The development embeds the simulation core of \<open>src/main.js\<close>: the difficulty
  ramp, the run state, the commands of the keyboard and pointer handlers, the
  \<open>update\<close> tick and the frame \<open>loop\<close>.

  Conventions of the embedding.
  \<^item> A JavaScript number is modelled as a \<open>real\<close>: arithmetic is exact, the
    rounding of IEEE doubles is not modelled.  The two counters \<open>score\<close> and
    \<open>bestScore\<close> only ever hold non-negative whole numbers (\<open>score\<close> starts at
    \<open>0\<close> and is only incremented, \<open>loadBestScore\<close> returns \<open>Math.floor\<close> of a
    non-negative number or \<open>0\<close>), so they are \<open>nat\<close>.
  \<^item> The mutable globals (\<open>state\<close>, \<open>bird\<close>, \<open>pipes\<close>, \<open>spawnTimer\<close>,
    \<open>score\<close>, \<open>bestScore\<close>, \<open>last\<close>, the \<open>muted\<close> flag of \<open>Sound\<close>) are the
    fields of one record that every function takes and returns.
  \<^item> The page (\<open>index.html\<close>) is not part of the sources, so the size of the canvas
    is a parameter \<open>cv\<close> of every function that reads \<open>canvas.width\<close> or
    \<open>canvas.height\<close>; both are unsigned integers in the DOM.
  \<^item> \<open>Math.random()\<close> is an input: the tick takes the number \<open>u\<close> that the call
    would return (it is read only when a pipe is spawned).
  \<^item> The audio backend is modelled at its interface: a call of \<open>Sound.jump\<close>,
    \<open>Sound.score\<close> or \<open>Sound.hit\<close> appends a cue to a log, whether or not a tone
    is audible.  The calls are assumed to return normally.
  \<^item> \<open>localStorage\<close> is one slot (the value under \<open>BEST_SCORE_KEY\<close>) and a flag
    that says whether the storage calls succeed; a call that throws is caught by
    the source's \<open>try\<close>/\<open>catch\<close> and changes nothing.
\<close>

subsection \<open>Constants (lines 5--33)\<close>

definition GRAVITY :: real where "GRAVITY = 1800"
definition JUMP_VELOCITY :: real where "JUMP_VELOCITY = - 550"
definition BIRD_X :: real where "BIRD_X = 90"
definition BIRD_RADIUS :: real where "BIRD_RADIUS = 14"

definition PIPE_WIDTH :: real where "PIPE_WIDTH = 70"

definition BASE_PIPE_SPEED :: real where "BASE_PIPE_SPEED = 220"
definition SPEED_PER_POINT :: real where "SPEED_PER_POINT = 6"
definition MAX_PIPE_SPEED :: real where "MAX_PIPE_SPEED = 360"

definition BASE_PIPE_GAP :: real where "BASE_PIPE_GAP = 170"
definition GAP_SHRINK_PER_POINT :: real where "GAP_SHRINK_PER_POINT = 12 / 10"
definition MIN_PIPE_GAP :: real where "MIN_PIPE_GAP = 135"

definition BASE_SPAWN_EVERY :: real where "BASE_SPAWN_EVERY = 135 / 100"
definition MIN_SPAWN_EVERY :: real where "MIN_SPAWN_EVERY = 110 / 100"
definition SPAWN_ACCEL_PER_POINT :: real where "SPAWN_ACCEL_PER_POINT = 1 / 100"

definition PIPE_MARGIN :: real where "PIPE_MARGIN = 80"

definition GROUND_HEIGHT :: real where "GROUND_HEIGHT = 70"

record canvas =
  width :: nat
  height :: nat

definition FLOOR_Y :: "canvas \<Rightarrow> real" where
  "FLOOR_Y cv = real (height cv) - GROUND_HEIGHT"

subsection \<open>Game state (lines 129--149)\<close>

datatype State = START | PLAYING | GAME_OVER

text \<open>An element of \<open>pipes\<close>: \<open>{ x, gapY, scored }\<close>.\<close>

record pipe =
  pipe_x :: real
  gapY :: real
  scored :: bool

datatype cue = Jump | Score | Hit

record game =
  state :: State
  bird_y :: real
  bird_vy :: real
  pipes :: "pipe list"
  spawnTimer :: real
  score :: nat
  bestScore :: nat
  last_now :: real
  stored :: "nat option"
  storage_ok :: bool
  muted :: bool
  cues :: "cue list"

subsection \<open>Persistence (lines 35--52, 151--156)\<close>

text \<open>
  \<open>loadBestScore\<close> reads the slot; an absent key (\<open>Number(null) = 0\<close>) and a
  storage that throws both give \<open>0\<close>.  The slot is typed by what \<open>saveBestScore\<close>
  writes, a non-negative whole number.
\<close>

definition loadBestScore :: "bool \<Rightarrow> nat option \<Rightarrow> nat" where
  "loadBestScore ok slot =
     (if ok then (case slot of None \<Rightarrow> 0 | Some n \<Rightarrow> n) else 0)"

definition saveBestScore :: "nat \<Rightarrow> game \<Rightarrow> game" where
  "saveBestScore v s = (if storage_ok s then s\<lparr>stored := Some v\<rparr> else s)"

definition setBestScore :: "nat \<Rightarrow> game \<Rightarrow> game" where
  "setBestScore newValue s =
     (if newValue > bestScore s
      then saveBestScore newValue (s\<lparr>bestScore := newValue\<rparr>)
      else s)"

subsection \<open>Run control and input (lines 158--218)\<close>

definition resetRun :: "canvas \<Rightarrow> game \<Rightarrow> game" where
  "resetRun cv s =
     s\<lparr>bird_y := real (height cv) * (35 / 100), bird_vy := 0,
       pipes := [], spawnTimer := 0, score := 0\<rparr>"

definition goToStart :: "canvas \<Rightarrow> game \<Rightarrow> game" where
  "goToStart cv s = (resetRun cv s)\<lparr>state := START\<rparr>"

definition startPlaying :: "canvas \<Rightarrow> bool \<Rightarrow> game \<Rightarrow> game" where
  "startPlaying cv withJump s =
     (let s1 = (resetRun cv s)\<lparr>state := PLAYING\<rparr>
      in if withJump
         then s1\<lparr>bird_vy := JUMP_VELOCITY, cues := cues s1 @ [Jump]\<rparr>
         else s1)"

text \<open>
  \<open>onPrimaryAction\<close> is \<open>async\<close>: it first awaits \<open>Sound.unlock()\<close>.  The model is
  the part after the \<open>await\<close>, which runs without interruption on the state that
  the game has when the continuation is resumed.
\<close>

definition onPrimaryAction :: "canvas \<Rightarrow> game \<Rightarrow> game" where
  "onPrimaryAction cv s =
     (if state s = START then startPlaying cv True s
      else if state s = GAME_OVER then startPlaying cv True s
      else s\<lparr>bird_vy := JUMP_VELOCITY, cues := cues s @ [Jump]\<rparr>)"

text \<open>The \<open>KeyC\<close> branch of the key handler: remove the stored value, zero the best score.\<close>

definition clearBest :: "game \<Rightarrow> game" where
  "clearBest s =
     (if storage_ok s then s\<lparr>stored := None\<rparr> else s)\<lparr>bestScore := 0\<rparr>"

definition toggleMute :: "game \<Rightarrow> game" where
  "toggleMute s = s\<lparr>muted := \<not> muted s\<rparr>"

subsection \<open>Helpers (lines 220--247)\<close>

definition rand :: "real \<Rightarrow> real \<Rightarrow> real \<Rightarrow> real" where
  "rand lo hi u = lo + u * (hi - lo)"

definition clamp :: "real \<Rightarrow> real \<Rightarrow> real \<Rightarrow> real" where
  "clamp v lo hi = max lo (min v hi)"

text \<open>The three difficulty functions read the global \<open>score\<close>; here it is their argument.\<close>

definition currentPipeSpeed :: "nat \<Rightarrow> real" where
  "currentPipeSpeed sc =
     clamp (BASE_PIPE_SPEED + real sc * SPEED_PER_POINT) BASE_PIPE_SPEED MAX_PIPE_SPEED"

definition currentPipeGap :: "nat \<Rightarrow> real" where
  "currentPipeGap sc =
     clamp (BASE_PIPE_GAP - real sc * GAP_SHRINK_PER_POINT) MIN_PIPE_GAP BASE_PIPE_GAP"

definition currentSpawnEvery :: "nat \<Rightarrow> real" where
  "currentSpawnEvery sc =
     clamp (BASE_SPAWN_EVERY - real sc * SPAWN_ACCEL_PER_POINT) MIN_SPAWN_EVERY BASE_SPAWN_EVERY"

definition circleIntersectsRect ::
  "real \<Rightarrow> real \<Rightarrow> real \<Rightarrow> real \<Rightarrow> real \<Rightarrow> real \<Rightarrow> real \<Rightarrow> bool" where
  "circleIntersectsRect cx cy r rx ry rw rh =
     (let closestX = max rx (min cx (rx + rw));
          closestY = max ry (min cy (ry + rh));
          dx = cx - closestX;
          dy = cy - closestY
      in dx * dx + dy * dy \<le> r * r)"

subsection \<open>The update tick (lines 382--467)\<close>

text \<open>
  Bird physics with the ceiling clamp (lines 390--399): gravity, then the position,
  then \<open>if (bird.y < top)\<close>.
\<close>

definition bird_physics :: "real \<Rightarrow> game \<Rightarrow> game" where
  "bird_physics dt s =
     (let s1 = s\<lparr>bird_vy := bird_vy s + GRAVITY * dt\<rparr>;
          s2 = s1\<lparr>bird_y := bird_y s1 + bird_vy s1 * dt\<rparr>;
          top = BIRD_RADIUS
      in if bird_y s2 < top then s2\<lparr>bird_y := top, bird_vy := 0\<rparr> else s2)"

text \<open>The body of the floor branch (lines 401--406), up to its \<open>return\<close>.\<close>

definition floor_hit :: "canvas \<Rightarrow> game \<Rightarrow> game" where
  "floor_hit cv s =
     (let bottom = FLOOR_Y cv - BIRD_RADIUS;
          s1 = s\<lparr>bird_y := bottom, bird_vy := 0, state := GAME_OVER\<rparr>;
          s2 = setBestScore (score s1) s1
      in s2\<lparr>cues := cues s2 @ [Hit]\<rparr>)"

text \<open>Spawn pipes (lines 410--422).\<close>

definition spawn_pipes :: "canvas \<Rightarrow> real \<Rightarrow> real \<Rightarrow> real \<Rightarrow> real \<Rightarrow> game \<Rightarrow> game" where
  "spawn_pipes cv dt u spawnEvery pipeGap s =
     (let s1 = s\<lparr>spawnTimer := spawnTimer s + dt\<rparr>
      in if spawnTimer s1 \<ge> spawnEvery
         then (let minGapY = PIPE_MARGIN + pipeGap / 2;
                   maxGapY = FLOOR_Y cv - PIPE_MARGIN - pipeGap / 2
               in s1\<lparr>spawnTimer := 0,
                     pipes := pipes s1 @
                       [\<lparr>pipe_x = real (width cv) + PIPE_WIDTH,
                         gapY = rand minGapY maxGapY u,
                         scored = False\<rparr>]\<rparr>)
         else s1)"

text \<open>Move pipes and drop those that left the canvas (lines 425--428).\<close>

definition move_pipes :: "real \<Rightarrow> real \<Rightarrow> game \<Rightarrow> game" where
  "move_pipes pipeSpeed dt s =
     (let s1 = s\<lparr>pipes := map (\<lambda>p. p\<lparr>pipe_x := pipe_x p - pipeSpeed * dt\<rparr>) (pipes s)\<rparr>
      in s1\<lparr>pipes := filter (\<lambda>p. pipe_x p + PIPE_WIDTH > 0) (pipes s1)\<rparr>)"

text \<open>
  The scoring loop (lines 431--438) walks the pipes in order; it marks a pipe and, in
  the same iteration, increments \<open>score\<close>, calls \<open>setBestScore\<close> and \<open>Sound.score\<close>.
  The function returns the pipes as the loop leaves them and the state.
  \<open>passed\<close> is the test of line 432.
\<close>

definition passed :: "pipe \<Rightarrow> bool" where
  "passed p = (\<not> scored p \<and> pipe_x p + PIPE_WIDTH < BIRD_X)"

fun scoring_loop :: "pipe list \<Rightarrow> game \<Rightarrow> pipe list \<times> game" where
  "scoring_loop [] s = ([], s)"
| "scoring_loop (p # ps) s =
     (if passed p
      then (let s1 = s\<lparr>score := score s + 1\<rparr>;
                s2 = setBestScore (score s1) s1;
                s3 = s2\<lparr>cues := cues s2 @ [Score]\<rparr>;
                (ps', s') = scoring_loop ps s3
            in (p\<lparr>scored := True\<rparr> # ps', s'))
      else (let (ps', s') = scoring_loop ps s
            in (p # ps', s')))"

definition scoring :: "game \<Rightarrow> game" where
  "scoring s = (let (ps', s') = scoring_loop (pipes s) s in s'\<lparr>pipes := ps'\<rparr>)"

text \<open>The test of one iteration of the collision loop, \<open>hitTop || hitBottom\<close> (lines 445--459).\<close>

definition pipe_hit :: "canvas \<Rightarrow> real \<Rightarrow> real \<Rightarrow> real \<Rightarrow> pipe \<Rightarrow> bool" where
  "pipe_hit cv pipeGap birdX birdY p =
     (let gapTop = gapY p - pipeGap / 2;
          gapBottom = gapY p + pipeGap / 2;
          hitTop = circleIntersectsRect birdX birdY BIRD_RADIUS (pipe_x p) 0 PIPE_WIDTH gapTop;
          hitBottom = circleIntersectsRect birdX birdY BIRD_RADIUS
                        (pipe_x p) gapBottom PIPE_WIDTH (FLOOR_Y cv - gapBottom)
      in hitTop \<or> hitBottom)"

text \<open>The body of the branch taken on a hit (lines 460--463), up to its \<open>break\<close>.\<close>

definition hit_pipe :: "game \<Rightarrow> game" where
  "hit_pipe s =
     (let s1 = s\<lparr>state := GAME_OVER, bird_vy := 0\<rparr>;
          s2 = setBestScore (score s1) s1
      in s2\<lparr>cues := cues s2 @ [Hit]\<rparr>)"

text \<open>The collision loop (lines 444--466): the first hit ends the run and the loop.\<close>

fun collision_loop :: "canvas \<Rightarrow> real \<Rightarrow> real \<Rightarrow> real \<Rightarrow> pipe list \<Rightarrow> game \<Rightarrow> game" where
  "collision_loop cv pipeGap birdX birdY [] s = s"
| "collision_loop cv pipeGap birdX birdY (p # ps) s =
     (if pipe_hit cv pipeGap birdX birdY p
      then hit_pipe s
      else collision_loop cv pipeGap birdX birdY ps s)"

definition collision :: "canvas \<Rightarrow> real \<Rightarrow> game \<Rightarrow> game" where
  "collision cv pipeGap s =
     (let birdX = BIRD_X; birdY = bird_y s
      in collision_loop cv pipeGap birdX birdY (pipes s) s)"

definition update :: "canvas \<Rightarrow> real \<Rightarrow> real \<Rightarrow> game \<Rightarrow> game" where
  "update cv dt u s =
     (if state s \<noteq> PLAYING then s
      else (let pipeSpeed = currentPipeSpeed (score s);
                pipeGap = currentPipeGap (score s);
                spawnEvery = currentSpawnEvery (score s);
                s1 = bird_physics dt s;
                bottom = FLOOR_Y cv - BIRD_RADIUS
            in if bird_y s1 \<ge> bottom then floor_hit cv s1
               else (let s2 = spawn_pipes cv dt u spawnEvery pipeGap s1;
                         s3 = move_pipes pipeSpeed dt s2;
                         s4 = scoring s3
                     in collision cv pipeGap s4)))"

subsection \<open>The frame loop and the event handlers (lines 200--218, 487--497)\<close>

text \<open>
  \<open>loop(now)\<close> clamps the elapsed time to \<open>0.05\<close>, stores \<open>now\<close> and calls
  \<open>update\<close>; \<open>render\<close> only reads the state.
\<close>

definition loop :: "canvas \<Rightarrow> real \<Rightarrow> real \<Rightarrow> game \<Rightarrow> game" where
  "loop cv now u s =
     (let dt = min (5 / 100) ((now - last_now s) / 1000);
          s1 = s\<lparr>last_now := now\<rparr>
      in update cv dt u s1)"

text \<open>
  What can happen to the game: an animation frame (with its time stamp and the
  random number it may draw), the continuation of a primary action (Space or a
  pointer press), and the keys R, C and M.
\<close>

datatype event = Frame real real | PrimaryAction | KeyR | KeyC | KeyM

fun step :: "canvas \<Rightarrow> game \<Rightarrow> event \<Rightarrow> game" where
  "step cv s (Frame now u) = loop cv now u s"
| "step cv s PrimaryAction = onPrimaryAction cv s"
| "step cv s KeyR = goToStart cv s"
| "step cv s KeyC = clearBest s"
| "step cv s KeyM = toggleMute s"

definition run :: "canvas \<Rightarrow> game \<Rightarrow> event list \<Rightarrow> game" where
  "run cv s es = foldl (step cv) s es"

text \<open>The state after the script has been loaded (lines 136--149).\<close>

definition initial :: "canvas \<Rightarrow> bool \<Rightarrow> nat option \<Rightarrow> real \<Rightarrow> game" where
  "initial cv ok slot now0 =
     \<lparr>state = START,
      bird_y = real (height cv) * (35 / 100), bird_vy = 0,
      pipes = [], spawnTimer = 0,
      score = 0, bestScore = loadBestScore ok slot,
      last_now = now0,
      stored = slot, storage_ok = ok,
      muted = False, cues = []\<rparr>"

subsection \<open>Example states\<close>

text \<open>
  Concrete inputs on which the statements below are evaluated: a canvas of
  \<open>360 \<times> 640\<close> pixels (so \<open>FLOOR_Y = 570\<close> and the floor bound is \<open>556\<close>) and a
  few states of a run in progress.
\<close>

definition demo_canvas :: canvas where
  "demo_canvas = \<lparr>width = 360, height = 640\<rparr>"

text \<open>A run in progress, the bird in free flight.\<close>

definition demo_flight :: game where
  "demo_flight =
     \<lparr>state = PLAYING, bird_y = 300, bird_vy = 120,
      pipes = [\<lparr>pipe_x = 200, gapY = 300, scored = False\<rparr>],
      spawnTimer = 1 / 2, score = 2, bestScore = 7, last_now = 1000,
      stored = Some 7, storage_ok = True, muted = False, cues = []\<rparr>"

text \<open>
  A run from the initial state: a start and eighteen frames, 50 ms apart, in which
  the bird is left to fall.  The next frame takes it to the floor.
\<close>

definition demo_dive :: "event list" where
  "demo_dive =
     [PrimaryAction,
      Frame 50 0, Frame 100 0, Frame 150 0, Frame 200 0, Frame 250 0, Frame 300 0,
      Frame 350 0, Frame 400 0, Frame 450 0, Frame 500 0, Frame 550 0, Frame 600 0,
      Frame 650 0, Frame 700 0, Frame 750 0, Frame 800 0, Frame 850 0, Frame 900 0]"

text \<open>A bird that falls and reaches the floor bound in the next tick.\<close>

definition demo_falling :: game where
  "demo_falling =
     \<lparr>state = PLAYING, bird_y = 550, bird_vy = 400,
      pipes = [\<lparr>pipe_x = 200, gapY = 300, scored = False\<rparr>],
      spawnTimer = 7 / 10, score = 3, bestScore = 1, last_now = 1000,
      stored = Some 1, storage_ok = True, muted = False, cues = []\<rparr>"

text \<open>A bird that jumps into the ceiling in the next tick.\<close>

definition demo_ceiling :: game where
  "demo_ceiling =
     \<lparr>state = PLAYING, bird_y = 16, bird_vy = - 550,
      pipes = [], spawnTimer = 0, score = 0, bestScore = 0, last_now = 1000,
      stored = None, storage_ok = True, muted = False, cues = [Jump]\<rparr>"

text \<open>A bird inside the column of the first pipe, below its gap.\<close>

definition demo_crash :: game where
  "demo_crash =
     \<lparr>state = PLAYING, bird_y = 300, bird_vy = 250,
      pipes = [\<lparr>pipe_x = 60, gapY = 200, scored = False\<rparr>,
               \<lparr>pipe_x = 350, gapY = 310, scored = False\<rparr>],
      spawnTimer = 3 / 10, score = 4, bestScore = 2, last_now = 1000,
      stored = Some 2, storage_ok = True, muted = False, cues = []\<rparr>"

text \<open>
  A bird level with the upper edge of the gap of a pipe whose trailing edge is
  about to pass it.
\<close>

definition demo_passing :: game where
  "demo_passing =
     \<lparr>state = PLAYING, bird_y = 300, bird_vy = - 36,
      pipes = [\<lparr>pipe_x = 144 / 10, gapY = 3748 / 10, scored = False\<rparr>],
      spawnTimer = 0, score = 0, bestScore = 0, last_now = 1000,
      stored = None, storage_ok = True, muted = False, cues = [Jump]\<rparr>"

text \<open>A pipe about to leave the canvas on the left, and the spawn timer about to expire.\<close>

definition demo_spawn :: game where
  "demo_spawn =
     \<lparr>state = PLAYING, bird_y = 300, bird_vy = 0,
      pipes = [\<lparr>pipe_x = - 68, gapY = 300, scored = True\<rparr>],
      spawnTimer = 134 / 100, score = 1, bestScore = 1, last_now = 1000,
      stored = Some 1, storage_ok = True, muted = False, cues = [Jump, Score]\<rparr>"

section \<open>Basic facts\<close>

lemmas constants =
  GRAVITY_def JUMP_VELOCITY_def BIRD_X_def BIRD_RADIUS_def PIPE_WIDTH_def
  BASE_PIPE_SPEED_def SPEED_PER_POINT_def MAX_PIPE_SPEED_def
  BASE_PIPE_GAP_def GAP_SHRINK_PER_POINT_def MIN_PIPE_GAP_def
  BASE_SPAWN_EVERY_def MIN_SPAWN_EVERY_def SPAWN_ACCEL_PER_POINT_def
  PIPE_MARGIN_def GROUND_HEIGHT_def FLOOR_Y_def

lemmas tick_defs =
  update_def bird_physics_def floor_hit_def spawn_pipes_def move_pipes_def scoring_def
  collision_def hit_pipe_def pipe_hit_def circleIntersectsRect_def passed_def
  setBestScore_def saveBestScore_def rand_def
  currentPipeSpeed_def currentPipeGap_def currentSpawnEvery_def clamp_def

subsection \<open>The best score\<close>

lemma setBestScore_fields [simp]:
  "state (setBestScore v s) = state s"
  "bird_y (setBestScore v s) = bird_y s"
  "bird_vy (setBestScore v s) = bird_vy s"
  "pipes (setBestScore v s) = pipes s"
  "spawnTimer (setBestScore v s) = spawnTimer s"
  "score (setBestScore v s) = score s"
  "last_now (setBestScore v s) = last_now s"
  "storage_ok (setBestScore v s) = storage_ok s"
  "muted (setBestScore v s) = muted s"
  "cues (setBestScore v s) = cues s"
  by (simp_all add: setBestScore_def saveBestScore_def)

lemma setBestScore_best [simp]: "bestScore (setBestScore v s) = max (bestScore s) v"
  by (simp add: setBestScore_def saveBestScore_def)

lemma setBestScore_stored:
  "stored (setBestScore v s) = (if storage_ok s \<and> bestScore s < v then Some v else stored s)"
  by (simp add: setBestScore_def saveBestScore_def)

subsection \<open>Bird physics\<close>

lemma bird_physics_fields [simp]:
  "state (bird_physics dt s) = state s"
  "pipes (bird_physics dt s) = pipes s"
  "spawnTimer (bird_physics dt s) = spawnTimer s"
  "score (bird_physics dt s) = score s"
  "bestScore (bird_physics dt s) = bestScore s"
  "last_now (bird_physics dt s) = last_now s"
  "stored (bird_physics dt s) = stored s"
  "storage_ok (bird_physics dt s) = storage_ok s"
  "muted (bird_physics dt s) = muted s"
  "cues (bird_physics dt s) = cues s"
  by (simp_all add: bird_physics_def Let_def)

lemma bird_physics_y:
  "bird_y (bird_physics dt s) = max BIRD_RADIUS (bird_y s + (bird_vy s + GRAVITY * dt) * dt)"
  by (simp add: bird_physics_def Let_def)

lemma bird_physics_vy:
  "bird_vy (bird_physics dt s) =
     (if bird_y s + (bird_vy s + GRAVITY * dt) * dt < BIRD_RADIUS then 0
      else bird_vy s + GRAVITY * dt)"
  by (simp add: bird_physics_def Let_def)

subsection \<open>Floor branch\<close>

lemma floor_hit_fields [simp]:
  "state (floor_hit cv s) = GAME_OVER"
  "bird_y (floor_hit cv s) = FLOOR_Y cv - BIRD_RADIUS"
  "bird_vy (floor_hit cv s) = 0"
  "pipes (floor_hit cv s) = pipes s"
  "spawnTimer (floor_hit cv s) = spawnTimer s"
  "score (floor_hit cv s) = score s"
  "bestScore (floor_hit cv s) = max (bestScore s) (score s)"
  "last_now (floor_hit cv s) = last_now s"
  "storage_ok (floor_hit cv s) = storage_ok s"
  "muted (floor_hit cv s) = muted s"
  "cues (floor_hit cv s) = cues s @ [Hit]"
  by (simp_all add: floor_hit_def Let_def)

lemma floor_hit_stored:
  "stored (floor_hit cv s) =
     (if storage_ok s \<and> bestScore s < score s then Some (score s) else stored s)"
  by (simp add: floor_hit_def Let_def setBestScore_stored)

subsection \<open>Spawning and moving\<close>

lemma spawn_pipes_fields [simp]:
  "state (spawn_pipes cv dt u ev g s) = state s"
  "bird_y (spawn_pipes cv dt u ev g s) = bird_y s"
  "bird_vy (spawn_pipes cv dt u ev g s) = bird_vy s"
  "score (spawn_pipes cv dt u ev g s) = score s"
  "bestScore (spawn_pipes cv dt u ev g s) = bestScore s"
  "last_now (spawn_pipes cv dt u ev g s) = last_now s"
  "stored (spawn_pipes cv dt u ev g s) = stored s"
  "storage_ok (spawn_pipes cv dt u ev g s) = storage_ok s"
  "muted (spawn_pipes cv dt u ev g s) = muted s"
  "cues (spawn_pipes cv dt u ev g s) = cues s"
  by (simp_all add: spawn_pipes_def Let_def)

lemma spawn_pipes_timer:
  "spawnTimer (spawn_pipes cv dt u ev g s) = (if ev \<le> spawnTimer s + dt then 0 else spawnTimer s + dt)"
  by (simp add: spawn_pipes_def Let_def)

lemma spawn_pipes_pipes:
  "pipes (spawn_pipes cv dt u ev g s) =
     pipes s @
     (if ev \<le> spawnTimer s + dt
      then [\<lparr>pipe_x = real (width cv) + PIPE_WIDTH,
             gapY = rand (PIPE_MARGIN + g / 2) (FLOOR_Y cv - PIPE_MARGIN - g / 2) u,
             scored = False\<rparr>]
      else [])"
  by (simp add: spawn_pipes_def Let_def)

lemma move_pipes_fields [simp]:
  "state (move_pipes v dt s) = state s"
  "bird_y (move_pipes v dt s) = bird_y s"
  "bird_vy (move_pipes v dt s) = bird_vy s"
  "spawnTimer (move_pipes v dt s) = spawnTimer s"
  "score (move_pipes v dt s) = score s"
  "bestScore (move_pipes v dt s) = bestScore s"
  "last_now (move_pipes v dt s) = last_now s"
  "stored (move_pipes v dt s) = stored s"
  "storage_ok (move_pipes v dt s) = storage_ok s"
  "muted (move_pipes v dt s) = muted s"
  "cues (move_pipes v dt s) = cues s"
  by (simp_all add: move_pipes_def Let_def)

lemma move_pipes_pipes:
  "pipes (move_pipes v dt s) =
     filter (\<lambda>p. 0 < pipe_x p + PIPE_WIDTH) (map (\<lambda>p. p\<lparr>pipe_x := pipe_x p - v * dt\<rparr>) (pipes s))"
  by (simp add: move_pipes_def Let_def)

subsection \<open>Scoring\<close>

lemma scoring_loop_pipes:
  "fst (scoring_loop ps s) = map (\<lambda>p. p\<lparr>scored := scored p \<or> pipe_x p + PIPE_WIDTH < BIRD_X\<rparr>) ps"
  by (induction ps arbitrary: s) (auto simp: split_def Let_def passed_def)

lemma scoring_loop_score:
  "score (snd (scoring_loop ps s)) = score s + length (filter passed ps)"
  by (induction ps arbitrary: s) (auto simp: split_def Let_def)

lemma scoring_loop_frame:
  "state (snd (scoring_loop ps s)) = state s"
  "bird_y (snd (scoring_loop ps s)) = bird_y s"
  "bird_vy (snd (scoring_loop ps s)) = bird_vy s"
  "spawnTimer (snd (scoring_loop ps s)) = spawnTimer s"
  "last_now (snd (scoring_loop ps s)) = last_now s"
  "storage_ok (snd (scoring_loop ps s)) = storage_ok s"
  "muted (snd (scoring_loop ps s)) = muted s"
  by (induction ps arbitrary: s; simp add: split_def Let_def)+

lemma scoring_loop_best:
  "bestScore (snd (scoring_loop ps s)) =
     (if filter passed ps = [] then bestScore s
      else max (bestScore s) (score s + length (filter passed ps)))"
  by (induction ps arbitrary: s) (auto simp: split_def Let_def)

lemma scoring_fields [simp]:
  "state (scoring s) = state s"
  "bird_y (scoring s) = bird_y s"
  "bird_vy (scoring s) = bird_vy s"
  "spawnTimer (scoring s) = spawnTimer s"
  "last_now (scoring s) = last_now s"
  "storage_ok (scoring s) = storage_ok s"
  "muted (scoring s) = muted s"
  by (simp_all add: scoring_def split_def Let_def scoring_loop_frame)

lemma scoring_pipes:
  "pipes (scoring s) = map (\<lambda>p. p\<lparr>scored := scored p \<or> pipe_x p + PIPE_WIDTH < BIRD_X\<rparr>) (pipes s)"
  by (simp add: scoring_def split_def Let_def scoring_loop_pipes)

lemma scoring_score: "score (scoring s) = score s + length (filter passed (pipes s))"
  by (simp add: scoring_def split_def Let_def scoring_loop_score)

lemma scoring_best:
  "bestScore (scoring s) =
     (if filter passed (pipes s) = [] then bestScore s
      else max (bestScore s) (score s + length (filter passed (pipes s))))"
  by (simp add: scoring_def split_def Let_def scoring_loop_best)

subsection \<open>Collision\<close>

lemma hit_pipe_fields [simp]:
  "state (hit_pipe s) = GAME_OVER"
  "bird_y (hit_pipe s) = bird_y s"
  "bird_vy (hit_pipe s) = 0"
  "pipes (hit_pipe s) = pipes s"
  "spawnTimer (hit_pipe s) = spawnTimer s"
  "score (hit_pipe s) = score s"
  "bestScore (hit_pipe s) = max (bestScore s) (score s)"
  "last_now (hit_pipe s) = last_now s"
  "storage_ok (hit_pipe s) = storage_ok s"
  "muted (hit_pipe s) = muted s"
  "cues (hit_pipe s) = cues s @ [Hit]"
  by (simp_all add: hit_pipe_def Let_def)

lemma collision_loop_eq:
  "collision_loop cv g bx by' ps s =
     (if \<exists>p\<in>set ps. pipe_hit cv g bx by' p then hit_pipe s else s)"
  by (induction ps) auto

lemma collision_eq:
  "collision cv g s =
     (if \<exists>p\<in>set (pipes s). pipe_hit cv g BIRD_X (bird_y s) p then hit_pipe s else s)"
  by (simp add: collision_def Let_def collision_loop_eq)

subsection \<open>The tick\<close>

lemma update_not_playing: "state s \<noteq> PLAYING \<Longrightarrow> update cv dt u s = s"
  by (simp add: update_def)

lemma update_floor:
  "state s = PLAYING \<Longrightarrow> FLOOR_Y cv - BIRD_RADIUS \<le> bird_y (bird_physics dt s) \<Longrightarrow>
   update cv dt u s = floor_hit cv (bird_physics dt s)"
  by (simp add: update_def Let_def)

lemma update_flight:
  "state s = PLAYING \<Longrightarrow> bird_y (bird_physics dt s) < FLOOR_Y cv - BIRD_RADIUS \<Longrightarrow>
   update cv dt u s =
     collision cv (currentPipeGap (score s))
       (scoring (move_pipes (currentPipeSpeed (score s)) dt
          (spawn_pipes cv dt u (currentSpawnEvery (score s)) (currentPipeGap (score s))
             (bird_physics dt s))))"
  by (simp add: update_def Let_def)

lemma update_flight_frame:
  assumes "state s = PLAYING" and "bird_y (bird_physics dt s) < FLOOR_Y cv - BIRD_RADIUS"
  shows "bird_y (update cv dt u s) = bird_y (bird_physics dt s)"
    and "pipes (update cv dt u s) =
           pipes (scoring (move_pipes (currentPipeSpeed (score s)) dt
             (spawn_pipes cv dt u (currentSpawnEvery (score s)) (currentPipeGap (score s))
                (bird_physics dt s))))"
    and "score (update cv dt u s) =
           score (scoring (move_pipes (currentPipeSpeed (score s)) dt
             (spawn_pipes cv dt u (currentSpawnEvery (score s)) (currentPipeGap (score s))
                (bird_physics dt s))))"
    and "spawnTimer (update cv dt u s) =
           (if currentSpawnEvery (score s) \<le> spawnTimer s + dt then 0 else spawnTimer s + dt)"
  by (simp_all add: update_flight [OF assms] collision_eq spawn_pipes_timer)

lemma update_flight_state:
  assumes "state s = PLAYING" and "bird_y (bird_physics dt s) < FLOOR_Y cv - BIRD_RADIUS"
  shows "state (update cv dt u s) =
           (if \<exists>p\<in>set (pipes (update cv dt u s)).
                 pipe_hit cv (currentPipeGap (score s)) BIRD_X (bird_y (update cv dt u s)) p
            then GAME_OVER else PLAYING)"
  by (simp add: update_flight [OF assms] collision_eq assms(1))

lemma update_flight_vy:
  assumes "state s = PLAYING" and "bird_y (bird_physics dt s) < FLOOR_Y cv - BIRD_RADIUS"
  shows "bird_vy (update cv dt u s) =
           (if state (update cv dt u s) = GAME_OVER then 0 else bird_vy (bird_physics dt s))"
  by (simp add: update_flight [OF assms] collision_eq assms(1))

lemma update_never_start: "state s \<noteq> START \<Longrightarrow> state (update cv dt u s) \<noteq> START"
proof (cases "state s = PLAYING")
  case False
  assume "state s \<noteq> START"
  with False show ?thesis by (simp add: update_not_playing)
next
  case True
  show ?thesis
  proof (cases "bird_y (bird_physics dt s) < FLOOR_Y cv - BIRD_RADIUS")
    case True
    with \<open>state s = PLAYING\<close> show ?thesis
      by (simp add: update_flight_state)
  next
    case False
    with \<open>state s = PLAYING\<close> show ?thesis
      by (simp add: update_floor)
  qed
qed

lemma update_flight_pipes:
  assumes "state s = PLAYING" and "bird_y (bird_physics dt s) < FLOOR_Y cv - BIRD_RADIUS"
  shows "pipes (update cv dt u s) =
     map (\<lambda>p. p\<lparr>scored := scored p \<or> pipe_x p + PIPE_WIDTH < BIRD_X\<rparr>)
       (filter (\<lambda>p. 0 < pipe_x p + PIPE_WIDTH)
          (map (\<lambda>p. p\<lparr>pipe_x := pipe_x p - currentPipeSpeed (score s) * dt\<rparr>)
             (pipes s @
              (if currentSpawnEvery (score s) \<le> spawnTimer s + dt
               then [\<lparr>pipe_x = real (width cv) + PIPE_WIDTH,
                      gapY = rand (PIPE_MARGIN + currentPipeGap (score s) / 2)
                               (FLOOR_Y cv - PIPE_MARGIN - currentPipeGap (score s) / 2) u,
                      scored = False\<rparr>]
               else []))))"
  by (simp only: update_flight_frame(2) [OF assms] scoring_pipes move_pipes_pipes
      spawn_pipes_pipes bird_physics_fields)

lemma update_flight_score:
  assumes "state s = PLAYING" and "bird_y (bird_physics dt s) < FLOOR_Y cv - BIRD_RADIUS"
  shows "score (update cv dt u s) = score s +
     length (filter passed
       (filter (\<lambda>p. 0 < pipe_x p + PIPE_WIDTH)
          (map (\<lambda>p. p\<lparr>pipe_x := pipe_x p - currentPipeSpeed (score s) * dt\<rparr>)
             (pipes s @
              (if currentSpawnEvery (score s) \<le> spawnTimer s + dt
               then [\<lparr>pipe_x = real (width cv) + PIPE_WIDTH,
                      gapY = rand (PIPE_MARGIN + currentPipeGap (score s) / 2)
                               (FLOOR_Y cv - PIPE_MARGIN - currentPipeGap (score s) / 2) u,
                      scored = False\<rparr>]
               else [])))))"
  by (simp only: update_flight_frame(3) [OF assms] scoring_score move_pipes_pipes
      spawn_pipes_pipes bird_physics_fields move_pipes_fields spawn_pipes_fields)

lemma update_idle:
  assumes "state s \<noteq> PLAYING \<or> FLOOR_Y cv - BIRD_RADIUS \<le> bird_y (bird_physics dt s)"
  shows "pipes (update cv dt u s) = pipes s" and "score (update cv dt u s) = score s"
proof -
  have "update cv dt u s = s \<or> update cv dt u s = floor_hit cv (bird_physics dt s)"
    using assms update_not_playing [of s cv dt u] update_floor [of s cv dt u] by blast
  then show "pipes (update cv dt u s) = pipes s" and "score (update cv dt u s) = score s"
    by auto
qed

lemma map_pipe_x_visible:
  "map pipe_x (filter (\<lambda>p. 0 < pipe_x p + PIPE_WIDTH) ps) =
     filter (\<lambda>x. 0 < x + PIPE_WIDTH) (map pipe_x ps)"
  by (induction ps) simp_all

lemma demo_passing_fields:
  "state demo_passing = PLAYING" "bird_y demo_passing = 300" "bird_vy demo_passing = - 36"
  "pipes demo_passing = [\<lparr>pipe_x = 144 / 10, gapY = 3748 / 10, scored = False\<rparr>]"
  "spawnTimer demo_passing = 0" "score demo_passing = 0" "bestScore demo_passing = 0"
  by (simp_all add: demo_passing_def)

lemma demo_passing_tick:
  "update demo_canvas (1 / 50) 0 demo_passing =
     demo_passing\<lparr>bird_vy := 0,
       pipes := [\<lparr>pipe_x = 10, gapY = 3748 / 10, scored = True\<rparr>],
       spawnTimer := 1 / 50, score := 1, bestScore := 1, stored := Some 1,
       cues := [Jump, Score]\<rparr>"
  by (simp add: demo_passing_def demo_canvas_def tick_defs constants Let_def)

lemma demo_passing_second_tick:
  "update demo_canvas (1 / 50) 0 (update demo_canvas (1 / 50) 0 demo_passing) =
     demo_passing\<lparr>bird_y := 30072 / 100, bird_vy := 36,
       pipes := [\<lparr>pipe_x = 548 / 100, gapY = 3748 / 10, scored = True\<rparr>],
       spawnTimer := 2 / 50, score := 1, bestScore := 1, stored := Some 1,
       cues := [Jump, Score]\<rparr>"
  unfolding demo_passing_tick
  by (simp add: demo_passing_def demo_canvas_def tick_defs constants Let_def)

lemma run_snoc: "run cv s (es @ [e]) = step cv (run cv s es) e"
  by (simp add: run_def)

section \<open>Difficulty model\<close>

lemma clamp_bounds: "lo \<le> hi \<Longrightarrow> lo \<le> clamp v lo hi \<and> clamp v lo hi \<le> hi"
  by (simp add: clamp_def)

lemma clamp_mono: "v \<le> w \<Longrightarrow> clamp v lo hi \<le> clamp w lo hi"
  by (simp add: clamp_def max.coboundedI2 min.coboundedI1)

text \<open>
  Claim C5.  For every score \<open>s\<close>, the pipe speed lies between \<open>BASE_PIPE_SPEED\<close>
  and \<open>MAX_PIPE_SPEED\<close> and does not decrease when the score grows; the pipe gap
  lies between \<open>MIN_PIPE_GAP\<close> and \<open>BASE_PIPE_GAP\<close> and does not increase; the
  spawn interval lies between \<open>MIN_SPAWN_EVERY\<close> and \<open>BASE_SPAWN_EVERY\<close> and does
  not increase.
\<close>

theorem difficulty_bounds_and_monotone:
  "BASE_PIPE_SPEED \<le> currentPipeSpeed s \<and> currentPipeSpeed s \<le> MAX_PIPE_SPEED
   \<and> (s \<le> t \<longrightarrow> currentPipeSpeed s \<le> currentPipeSpeed t)
   \<and> MIN_PIPE_GAP \<le> currentPipeGap s \<and> currentPipeGap s \<le> BASE_PIPE_GAP
   \<and> (s \<le> t \<longrightarrow> currentPipeGap t \<le> currentPipeGap s)
   \<and> MIN_SPAWN_EVERY \<le> currentSpawnEvery s \<and> currentSpawnEvery s \<le> BASE_SPAWN_EVERY
   \<and> (s \<le> t \<longrightarrow> currentSpawnEvery t \<le> currentSpawnEvery s)"
proof -
  have speed: "BASE_PIPE_SPEED \<le> currentPipeSpeed s \<and> currentPipeSpeed s \<le> MAX_PIPE_SPEED"
    unfolding currentPipeSpeed_def
    by (rule clamp_bounds) (simp add: BASE_PIPE_SPEED_def MAX_PIPE_SPEED_def)
  have gap: "MIN_PIPE_GAP \<le> currentPipeGap s \<and> currentPipeGap s \<le> BASE_PIPE_GAP"
    unfolding currentPipeGap_def
    by (rule clamp_bounds) (simp add: MIN_PIPE_GAP_def BASE_PIPE_GAP_def)
  have spawn: "MIN_SPAWN_EVERY \<le> currentSpawnEvery s \<and> currentSpawnEvery s \<le> BASE_SPAWN_EVERY"
    unfolding currentSpawnEvery_def
    by (rule clamp_bounds) (simp add: MIN_SPAWN_EVERY_def BASE_SPAWN_EVERY_def)
  have speed_mono: "currentPipeSpeed s \<le> currentPipeSpeed t" if "s \<le> t"
    unfolding currentPipeSpeed_def
    by (rule clamp_mono) (use that in \<open>simp add: SPEED_PER_POINT_def\<close>)
  have gap_mono: "currentPipeGap t \<le> currentPipeGap s" if "s \<le> t"
    unfolding currentPipeGap_def
    by (rule clamp_mono) (use that in \<open>simp add: GAP_SHRINK_PER_POINT_def\<close>)
  have spawn_mono: "currentSpawnEvery t \<le> currentSpawnEvery s" if "s \<le> t"
    unfolding currentSpawnEvery_def
    by (rule clamp_mono) (use that in \<open>simp add: SPAWN_ACCEL_PER_POINT_def\<close>)
  from speed gap spawn speed_mono gap_mono spawn_mono show ?thesis by blast
qed

text \<open>The theorem at the scores \<open>3\<close> and \<open>40\<close>, with the values the ramp takes there.\<close>

theorem difficulty_witness:
  "(3::nat) \<le> 40
   \<and> currentPipeSpeed 3 = 238 \<and> currentPipeSpeed 40 = 360
   \<and> currentPipeGap 3 = 1664 / 10 \<and> currentPipeGap 40 = 135
   \<and> currentSpawnEvery 3 = 132 / 100 \<and> currentSpawnEvery 40 = 110 / 100
   \<and> BASE_PIPE_SPEED \<le> currentPipeSpeed 3 \<and> currentPipeSpeed 3 \<le> currentPipeSpeed 40
   \<and> currentPipeSpeed 40 \<le> MAX_PIPE_SPEED
   \<and> MIN_PIPE_GAP \<le> currentPipeGap 40 \<and> currentPipeGap 40 \<le> currentPipeGap 3
   \<and> currentPipeGap 3 \<le> BASE_PIPE_GAP
   \<and> MIN_SPAWN_EVERY \<le> currentSpawnEvery 40 \<and> currentSpawnEvery 40 \<le> currentSpawnEvery 3
   \<and> currentSpawnEvery 3 \<le> BASE_SPAWN_EVERY"
proof -
  have vals: "currentPipeSpeed 3 = 238 \<and> currentPipeSpeed 40 = 360
   \<and> currentPipeGap 3 = 1664 / 10 \<and> currentPipeGap 40 = 135
   \<and> currentSpawnEvery 3 = 132 / 100 \<and> currentSpawnEvery 40 = 110 / 100"
    by (simp add: currentPipeSpeed_def currentPipeGap_def currentSpawnEvery_def clamp_def constants)
  show ?thesis
    using difficulty_bounds_and_monotone [of 3 40] difficulty_bounds_and_monotone [of 40 40] vals
    by simp
qed

section \<open>Commands\<close>

lemma demo_flight_fields:
  "state demo_flight = PLAYING" "bird_y demo_flight = 300" "bird_vy demo_flight = 120"
  "pipes demo_flight = [\<lparr>pipe_x = 200, gapY = 300, scored = False\<rparr>]"
  "spawnTimer demo_flight = 1 / 2" "score demo_flight = 2" "bestScore demo_flight = 7"
  "last_now demo_flight = 1000" "stored demo_flight = Some 7" "storage_ok demo_flight"
  "\<not> muted demo_flight" "cues demo_flight = []"
  by (simp_all add: demo_flight_def)

text \<open>
  Claim C9.  While the state is \<open>PLAYING\<close>, a primary action sets the vertical
  velocity to \<open>JUMP_VELOCITY = -550\<close>, whatever it was, and logs the jump cue; the
  vertical position, the score, the spawn timer, the pipes and the state are
  unchanged.
\<close>

theorem primary_action_while_playing:
  "state s = PLAYING \<Longrightarrow>
   onPrimaryAction cv s = s\<lparr>bird_vy := JUMP_VELOCITY, cues := cues s @ [Jump]\<rparr>
   \<and> bird_vy (onPrimaryAction cv s) = - 550
   \<and> bird_y (onPrimaryAction cv s) = bird_y s
   \<and> score (onPrimaryAction cv s) = score s
   \<and> spawnTimer (onPrimaryAction cv s) = spawnTimer s
   \<and> pipes (onPrimaryAction cv s) = pipes s
   \<and> state (onPrimaryAction cv s) = state s"
  by (simp add: onPrimaryAction_def JUMP_VELOCITY_def)

theorem primary_action_witness:
  "state demo_flight = PLAYING
   \<and> bird_vy demo_flight = 120
   \<and> bird_vy (onPrimaryAction demo_canvas demo_flight) = - 550
   \<and> bird_y (onPrimaryAction demo_canvas demo_flight) = 300
   \<and> score (onPrimaryAction demo_canvas demo_flight) = 2
   \<and> spawnTimer (onPrimaryAction demo_canvas demo_flight) = 1 / 2
   \<and> pipes (onPrimaryAction demo_canvas demo_flight) = [\<lparr>pipe_x = 200, gapY = 300, scored = False\<rparr>]
   \<and> state (onPrimaryAction demo_canvas demo_flight) = PLAYING"
proof -
  have p: "state demo_flight = PLAYING" by (simp add: demo_flight_fields)
  show ?thesis
    using primary_action_while_playing [OF p, of demo_canvas]
    by (simp add: demo_flight_fields JUMP_VELOCITY_def)
qed

section \<open>The floor and the ceiling\<close>

lemma demo_dive_state:
  "run demo_canvas (initial demo_canvas True (Some 7) 0) demo_dive =
     \<lparr>state = PLAYING, bird_y = 997 / 2, bird_vy = 1070,
      pipes = [], spawnTimer = 9 / 10, score = 0, bestScore = 7, last_now = 900,
      stored = Some 7, storage_ok = True, muted = False, cues = [Jump]\<rparr>"
  by (simp add: demo_dive_def run_def loop_def initial_def loadBestScore_def
      onPrimaryAction_def startPlaying_def resetRun_def demo_canvas_def
      tick_defs constants Let_def)

lemma demo_falling_fields:
  "state demo_falling = PLAYING" "bird_y demo_falling = 550" "bird_vy demo_falling = 400"
  "pipes demo_falling = [\<lparr>pipe_x = 200, gapY = 300, scored = False\<rparr>]"
  "spawnTimer demo_falling = 7 / 10" "score demo_falling = 3" "bestScore demo_falling = 1"
  "stored demo_falling = Some 1" "storage_ok demo_falling" "cues demo_falling = []"
  by (simp_all add: demo_falling_def)

lemma step_keeps_above_floor:
  assumes h: "130 \<le> height cv"
    and inv: "state s = PLAYING \<longrightarrow> bird_y s < FLOOR_Y cv - BIRD_RADIUS"
    and st: "state (step cv s e) = PLAYING"
  shows "bird_y (step cv s e) < FLOOR_Y cv - BIRD_RADIUS"
proof (cases e)
  case (Frame now u)
  let ?s1 = "s\<lparr>last_now := now\<rparr>"
  let ?dt = "min (5 / 100) ((now - last_now s) / 1000)"
  have l: "step cv s e = update cv ?dt u ?s1"
    by (simp add: Frame loop_def Let_def)
  have p: "state ?s1 = PLAYING"
  proof (rule ccontr)
    assume "state ?s1 \<noteq> PLAYING"
    then have "update cv ?dt u ?s1 = ?s1" by (rule update_not_playing)
    with st \<open>state ?s1 \<noteq> PLAYING\<close> show False unfolding l by simp
  qed
  have f: "bird_y (bird_physics ?dt ?s1) < FLOOR_Y cv - BIRD_RADIUS"
  proof (rule ccontr)
    assume "\<not> bird_y (bird_physics ?dt ?s1) < FLOOR_Y cv - BIRD_RADIUS"
    then have "update cv ?dt u ?s1 = floor_hit cv (bird_physics ?dt ?s1)"
      using p by (simp add: update_floor)
    with st show False unfolding l by simp
  qed
  show ?thesis
    unfolding l update_flight_frame(1) [OF p f] by (rule f)
next
  case PrimaryAction
  have "real (height cv) * (35 / 100) < FLOOR_Y cv - BIRD_RADIUS"
    using h by (simp add: constants)
  with inv show ?thesis
    by (cases "state s")
      (simp_all add: PrimaryAction onPrimaryAction_def startPlaying_def resetRun_def Let_def)
next
  case KeyR
  with st show ?thesis by (simp add: goToStart_def)
next
  case KeyC
  with st inv show ?thesis by (simp add: clearBest_def split: if_splits)
next
  case KeyM
  with st inv show ?thesis by (simp add: toggleMute_def)
qed

lemma run_above_floor:
  assumes "130 \<le> height cv"
  shows "state (run cv (initial cv ok slot t0) es) = PLAYING \<Longrightarrow>
    bird_y (run cv (initial cv ok slot t0) es) < FLOOR_Y cv - BIRD_RADIUS"
proof (induction es rule: rev_induct)
  case Nil
  then show ?case by (simp add: run_def initial_def)
next
  case (snoc e es)
  show ?case
    unfolding run_snoc
  proof (rule step_keeps_above_floor [OF assms])
    show "state (run cv (initial cv ok slot t0) es) = PLAYING \<longrightarrow>
      bird_y (run cv (initial cv ok slot t0) es) < FLOOR_Y cv - BIRD_RADIUS"
      using snoc.IH by simp
    show "state (step cv (run cv (initial cv ok slot t0) es) e) = PLAYING"
      using snoc.prems by (simp add: run_snoc)
  qed
qed

text \<open>
  Claim C2.  \<open>update\<close> tests the floor on the position that the tick has just
  computed (gravity, movement, ceiling clamp; lines 390--400).  If during
  \<open>PLAYING\<close> that position is at or below the floor bound \<open>FLOOR_Y - BIRD_RADIUS\<close>
  --- as it is whenever the position before the tick is at or below the bound,
  the bird does not move upwards and \<open>dt\<close> is not negative --- the tick ends the
  run: the state is \<open>GAME_OVER\<close>, the position is exactly the floor bound, the
  velocity is zero, the best score is the maximum of itself and the score (and is
  saved when it has grown), the hit cue is logged, and spawning, moving, scoring
  and collision are skipped: the pipes, the spawn timer and the score are
  unchanged.  Hence the floor is never missed: on a canvas at least \<open>130\<close> high,
  no state of a run is \<open>PLAYING\<close> with the bird at or below the floor bound.
\<close>

theorem floor_ends_run:
  "(state s = PLAYING
     \<and> (FLOOR_Y cv - BIRD_RADIUS \<le> max BIRD_RADIUS (bird_y s + (bird_vy s + GRAVITY * dt) * dt)
        \<or> (FLOOR_Y cv - BIRD_RADIUS \<le> bird_y s \<and> 0 \<le> bird_vy s \<and> 0 \<le> dt)) \<longrightarrow>
      state (update cv dt u s) = GAME_OVER
      \<and> bird_y (update cv dt u s) = FLOOR_Y cv - BIRD_RADIUS
      \<and> bird_vy (update cv dt u s) = 0
      \<and> bestScore (update cv dt u s) = max (bestScore s) (score s)
      \<and> stored (update cv dt u s) =
          (if storage_ok s \<and> bestScore s < score s then Some (score s) else stored s)
      \<and> cues (update cv dt u s) = cues s @ [Hit]
      \<and> pipes (update cv dt u s) = pipes s
      \<and> spawnTimer (update cv dt u s) = spawnTimer s
      \<and> score (update cv dt u s) = score s)
   \<and> (130 \<le> height cv \<and> state (run cv (initial cv ok slot t0) es) = PLAYING \<longrightarrow>
        bird_y (run cv (initial cv ok slot t0) es) < FLOOR_Y cv - BIRD_RADIUS)"
proof (intro conjI impI)
  assume "130 \<le> height cv \<and> state (run cv (initial cv ok slot t0) es) = PLAYING"
  then show "bird_y (run cv (initial cv ok slot t0) es) < FLOOR_Y cv - BIRD_RADIUS"
    by (simp add: run_above_floor)
next
  assume a: "state s = PLAYING
     \<and> (FLOOR_Y cv - BIRD_RADIUS \<le> max BIRD_RADIUS (bird_y s + (bird_vy s + GRAVITY * dt) * dt)
        \<or> (FLOOR_Y cv - BIRD_RADIUS \<le> bird_y s \<and> 0 \<le> bird_vy s \<and> 0 \<le> dt))"
  then have p: "state s = PLAYING" by simp
  have "FLOOR_Y cv - BIRD_RADIUS \<le> bird_y (bird_physics dt s)"
  proof -
    from a have "FLOOR_Y cv - BIRD_RADIUS \<le> max BIRD_RADIUS (bird_y s + (bird_vy s + GRAVITY * dt) * dt)
        \<or> (FLOOR_Y cv - BIRD_RADIUS \<le> bird_y s \<and> 0 \<le> bird_vy s \<and> 0 \<le> dt)"
      by simp
    then show ?thesis
    proof
      assume "FLOOR_Y cv - BIRD_RADIUS \<le> max BIRD_RADIUS (bird_y s + (bird_vy s + GRAVITY * dt) * dt)"
      then show ?thesis by (simp add: bird_physics_y)
    next
      assume b: "FLOOR_Y cv - BIRD_RADIUS \<le> bird_y s \<and> 0 \<le> bird_vy s \<and> 0 \<le> dt"
      then have "0 \<le> (bird_vy s + GRAVITY * dt) * dt"
        by (simp add: GRAVITY_def)
      with b have "FLOOR_Y cv - BIRD_RADIUS \<le> bird_y s + (bird_vy s + GRAVITY * dt) * dt"
        by linarith
      then show ?thesis by (simp add: bird_physics_y max.coboundedI2)
    qed
  qed
  with p have e: "update cv dt u s = floor_hit cv (bird_physics dt s)"
    by (rule update_floor)
  show "state (update cv dt u s) = GAME_OVER" by (simp add: e)
  show "bird_y (update cv dt u s) = FLOOR_Y cv - BIRD_RADIUS" by (simp add: e)
  show "bird_vy (update cv dt u s) = 0" by (simp add: e)
  show "bestScore (update cv dt u s) = max (bestScore s) (score s)" by (simp add: e)
  show "stored (update cv dt u s) =
          (if storage_ok s \<and> bestScore s < score s then Some (score s) else stored s)"
    by (simp add: e floor_hit_stored)
  show "cues (update cv dt u s) = cues s @ [Hit]" by (simp add: e)
  show "pipes (update cv dt u s) = pipes s" by (simp add: e)
  show "spawnTimer (update cv dt u s) = spawnTimer s" by (simp add: e)
  show "score (update cv dt u s) = score s" by (simp add: e)
qed

text \<open>
  The run \<open>demo_dive\<close>: after eighteen frames the bird is at \<open>y = 498.5\<close> with
  velocity \<open>1070\<close>, still \<open>PLAYING\<close> and above the floor bound \<open>556\<close>; the next
  frame integrates to \<open>556.5\<close> and ends the run on the bound.  And the falling bird
  with score \<open>3\<close> and best score \<open>1\<close>, whose best score is saved.
\<close>

theorem floor_ends_run_witness:
  "(130::nat) \<le> height demo_canvas
   \<and> state (run demo_canvas (initial demo_canvas True (Some 7) 0) demo_dive) = PLAYING
   \<and> bird_y (run demo_canvas (initial demo_canvas True (Some 7) 0) demo_dive) = 997 / 2
   \<and> bird_vy (run demo_canvas (initial demo_canvas True (Some 7) 0) demo_dive) = 1070
   \<and> bird_y (run demo_canvas (initial demo_canvas True (Some 7) 0) demo_dive)
       < FLOOR_Y demo_canvas - BIRD_RADIUS
   \<and> FLOOR_Y demo_canvas - BIRD_RADIUS
       \<le> max BIRD_RADIUS
            (bird_y (run demo_canvas (initial demo_canvas True (Some 7) 0) demo_dive)
             + (bird_vy (run demo_canvas (initial demo_canvas True (Some 7) 0) demo_dive)
                + GRAVITY * (1 / 20)) * (1 / 20))
   \<and> state (run demo_canvas (initial demo_canvas True (Some 7) 0) (demo_dive @ [Frame 950 0]))
       = GAME_OVER
   \<and> bird_y (run demo_canvas (initial demo_canvas True (Some 7) 0) (demo_dive @ [Frame 950 0]))
       = 556
   \<and> bird_vy (run demo_canvas (initial demo_canvas True (Some 7) 0) (demo_dive @ [Frame 950 0]))
       = 0
   \<and> bestScore (run demo_canvas (initial demo_canvas True (Some 7) 0) (demo_dive @ [Frame 950 0]))
       = 7
   \<and> stored (run demo_canvas (initial demo_canvas True (Some 7) 0) (demo_dive @ [Frame 950 0]))
       = Some 7
   \<and> cues (run demo_canvas (initial demo_canvas True (Some 7) 0) (demo_dive @ [Frame 950 0]))
       = [Jump, Hit]
   \<and> pipes (run demo_canvas (initial demo_canvas True (Some 7) 0) (demo_dive @ [Frame 950 0]))
       = []
   \<and> spawnTimer (run demo_canvas (initial demo_canvas True (Some 7) 0) (demo_dive @ [Frame 950 0]))
       = 9 / 10
   \<and> score (run demo_canvas (initial demo_canvas True (Some 7) 0) (demo_dive @ [Frame 950 0]))
       = 0
   \<and> state demo_falling = PLAYING
   \<and> FLOOR_Y demo_canvas - BIRD_RADIUS
       \<le> max BIRD_RADIUS (bird_y demo_falling + (bird_vy demo_falling + GRAVITY * (1 / 50)) * (1 / 50))
   \<and> bestScore (update demo_canvas (1 / 50) 0 demo_falling) = 3
   \<and> stored (update demo_canvas (1 / 50) 0 demo_falling) = Some 3
   \<and> score (update demo_canvas (1 / 50) 0 demo_falling) = 3"
proof -
  let ?r = "run demo_canvas (initial demo_canvas True (Some 7) 0) demo_dive"
  let ?s = "?r\<lparr>last_now := 950\<rparr>"
  have h: "(130::nat) \<le> height demo_canvas" by (simp add: demo_canvas_def)
  have fields: "state ?r = PLAYING" "bird_y ?r = 997 / 2" "bird_vy ?r = 1070"
    "pipes ?r = []" "spawnTimer ?r = 9 / 10" "score ?r = 0" "bestScore ?r = 7"
    "last_now ?r = 900" "stored ?r = Some 7" "storage_ok ?r" "cues ?r = [Jump]"
    unfolding demo_dive_state by simp_all
  have next_frame: "run demo_canvas (initial demo_canvas True (Some 7) 0) (demo_dive @ [Frame 950 0])
      = update demo_canvas (1 / 20) 0 ?s"
    unfolding run_snoc by (simp add: loop_def Let_def fields)
  note th = floor_ends_run [where s = ?s and cv = demo_canvas and dt = "1 / 20" and u = 0
      and ok = True and slot = "Some 7" and ?t0.0 = 0 and es = demo_dive]
  from th h fields(1) have above: "bird_y ?r < FLOOR_Y demo_canvas - BIRD_RADIUS"
    by blast
  have reach: "FLOOR_Y demo_canvas - BIRD_RADIUS
       \<le> max BIRD_RADIUS (bird_y ?r + (bird_vy ?r + GRAVITY * (1 / 20)) * (1 / 20))"
    unfolding fields by (simp add: demo_canvas_def constants)
  then have pre: "state ?s = PLAYING
     \<and> (FLOOR_Y demo_canvas - BIRD_RADIUS
          \<le> max BIRD_RADIUS (bird_y ?s + (bird_vy ?s + GRAVITY * (1 / 20)) * (1 / 20))
        \<or> (FLOOR_Y demo_canvas - BIRD_RADIUS \<le> bird_y ?s \<and> 0 \<le> bird_vy ?s
            \<and> (0::real) \<le> 1 / 20))"
    by (simp add: fields)
  from th pre have post: "state (update demo_canvas (1 / 20) 0 ?s) = GAME_OVER
      \<and> bird_y (update demo_canvas (1 / 20) 0 ?s) = FLOOR_Y demo_canvas - BIRD_RADIUS
      \<and> bird_vy (update demo_canvas (1 / 20) 0 ?s) = 0
      \<and> bestScore (update demo_canvas (1 / 20) 0 ?s) = max (bestScore ?s) (score ?s)
      \<and> stored (update demo_canvas (1 / 20) 0 ?s) =
          (if storage_ok ?s \<and> bestScore ?s < score ?s then Some (score ?s) else stored ?s)
      \<and> cues (update demo_canvas (1 / 20) 0 ?s) = cues ?s @ [Hit]
      \<and> pipes (update demo_canvas (1 / 20) 0 ?s) = pipes ?s
      \<and> spawnTimer (update demo_canvas (1 / 20) 0 ?s) = spawnTimer ?s
      \<and> score (update demo_canvas (1 / 20) 0 ?s) = score ?s"
    by blast
  have bound: "FLOOR_Y demo_canvas - BIRD_RADIUS = 556"
    by (simp add: demo_canvas_def constants)
  have p2: "state demo_falling = PLAYING" by (simp add: demo_falling_fields)
  have f2: "FLOOR_Y demo_canvas - BIRD_RADIUS
       \<le> max BIRD_RADIUS (bird_y demo_falling + (bird_vy demo_falling + GRAVITY * (1 / 50)) * (1 / 50))"
    by (simp add: demo_falling_fields demo_canvas_def constants)
  from floor_ends_run [where s = demo_falling and cv = demo_canvas and dt = "1 / 50" and u = 0
      and ok = True and slot = None and ?t0.0 = 0 and es = "[]"] p2 f2
  have saved: "bestScore (update demo_canvas (1 / 50) 0 demo_falling)
        = max (bestScore demo_falling) (score demo_falling)
      \<and> stored (update demo_canvas (1 / 50) 0 demo_falling) =
          (if storage_ok demo_falling \<and> bestScore demo_falling < score demo_falling
           then Some (score demo_falling) else stored demo_falling)
      \<and> score (update demo_canvas (1 / 50) 0 demo_falling) = score demo_falling"
    by blast
  then have saved': "bestScore (update demo_canvas (1 / 50) 0 demo_falling) = 3
      \<and> stored (update demo_canvas (1 / 50) 0 demo_falling) = Some 3
      \<and> score (update demo_canvas (1 / 50) 0 demo_falling) = 3"
    by (simp add: demo_falling_fields)
  from post have post': "state (update demo_canvas (1 / 20) 0 ?s) = GAME_OVER
      \<and> bird_y (update demo_canvas (1 / 20) 0 ?s) = 556
      \<and> bird_vy (update demo_canvas (1 / 20) 0 ?s) = 0
      \<and> bestScore (update demo_canvas (1 / 20) 0 ?s) = 7
      \<and> stored (update demo_canvas (1 / 20) 0 ?s) = Some 7
      \<and> cues (update demo_canvas (1 / 20) 0 ?s) = [Jump, Hit]
      \<and> pipes (update demo_canvas (1 / 20) 0 ?s) = []
      \<and> spawnTimer (update demo_canvas (1 / 20) 0 ?s) = 9 / 10
      \<and> score (update demo_canvas (1 / 20) 0 ?s) = 0"
    by (simp add: fields bound)
  from h fields(1,2,3) above reach post' p2 f2 saved' show ?thesis
    unfolding next_frame by blast
qed

text \<open>
  Claim C7.  A tick that starts and ends in \<open>PLAYING\<close> leaves the bird between the
  ceiling bound \<open>BIRD_RADIUS\<close> and the floor bound \<open>FLOOR_Y - BIRD_RADIUS\<close> (the floor
  bound itself is excluded).  When the integrated position is above the ceiling
  bound (and the canvas is high enough for the two bounds to differ), the position
  becomes \<open>BIRD_RADIUS\<close> and the velocity zero, and the run ends in that tick only if
  a pipe is hit.  When the integrated position is at or below the floor bound, the
  tick ends in \<open>GAME_OVER\<close>.
\<close>

theorem bird_stays_in_bounds:
  assumes "state s = PLAYING"
  shows "(state (update cv dt u s) = PLAYING \<longrightarrow>
            BIRD_RADIUS \<le> bird_y (update cv dt u s)
            \<and> bird_y (update cv dt u s) < FLOOR_Y cv - BIRD_RADIUS)
   \<and> (bird_y s + (bird_vy s + GRAVITY * dt) * dt < BIRD_RADIUS
        \<and> BIRD_RADIUS < FLOOR_Y cv - BIRD_RADIUS \<longrightarrow>
          bird_y (update cv dt u s) = BIRD_RADIUS
          \<and> bird_vy (update cv dt u s) = 0
          \<and> (state (update cv dt u s) = GAME_OVER) =
              (\<exists>p\<in>set (pipes (update cv dt u s)).
                 pipe_hit cv (currentPipeGap (score s)) BIRD_X BIRD_RADIUS p)
          \<and> (state (update cv dt u s) = PLAYING) =
              (\<not> (\<exists>p\<in>set (pipes (update cv dt u s)).
                 pipe_hit cv (currentPipeGap (score s)) BIRD_X BIRD_RADIUS p)))
   \<and> (FLOOR_Y cv - BIRD_RADIUS \<le> max BIRD_RADIUS (bird_y s + (bird_vy s + GRAVITY * dt) * dt) \<longrightarrow>
          state (update cv dt u s) = GAME_OVER)"
proof (intro conjI impI)
  assume still: "state (update cv dt u s) = PLAYING"
  have flight: "bird_y (bird_physics dt s) < FLOOR_Y cv - BIRD_RADIUS"
  proof (rule ccontr)
    assume "\<not> bird_y (bird_physics dt s) < FLOOR_Y cv - BIRD_RADIUS"
    then have "update cv dt u s = floor_hit cv (bird_physics dt s)"
      using assms by (simp add: update_floor)
    with still show False by simp
  qed
  have y: "bird_y (update cv dt u s) = bird_y (bird_physics dt s)"
    using assms flight by (rule update_flight_frame)
  show "BIRD_RADIUS \<le> bird_y (update cv dt u s)"
    by (simp add: y bird_physics_y)
  show "bird_y (update cv dt u s) < FLOOR_Y cv - BIRD_RADIUS"
    using flight by (simp add: y)
next
  assume c: "bird_y s + (bird_vy s + GRAVITY * dt) * dt < BIRD_RADIUS
        \<and> BIRD_RADIUS < FLOOR_Y cv - BIRD_RADIUS"
  then have y1: "bird_y (bird_physics dt s) = BIRD_RADIUS"
    and v1: "bird_vy (bird_physics dt s) = 0"
    by (simp_all add: bird_physics_y bird_physics_vy)
  from c y1 have flight: "bird_y (bird_physics dt s) < FLOOR_Y cv - BIRD_RADIUS"
    by simp
  show y: "bird_y (update cv dt u s) = BIRD_RADIUS"
    using update_flight_frame(1) [OF assms flight] y1 by simp
  show "bird_vy (update cv dt u s) = 0"
    using update_flight_vy [OF assms flight] v1 by simp
  have st: "state (update cv dt u s) =
           (if \<exists>p\<in>set (pipes (update cv dt u s)).
                 pipe_hit cv (currentPipeGap (score s)) BIRD_X BIRD_RADIUS p
            then GAME_OVER else PLAYING)"
    using update_flight_state [OF assms flight, of u] y by simp
  show "(state (update cv dt u s) = GAME_OVER) =
              (\<exists>p\<in>set (pipes (update cv dt u s)).
                 pipe_hit cv (currentPipeGap (score s)) BIRD_X BIRD_RADIUS p)"
    by (subst st) simp
  show "(state (update cv dt u s) = PLAYING) =
              (\<not> (\<exists>p\<in>set (pipes (update cv dt u s)).
                 pipe_hit cv (currentPipeGap (score s)) BIRD_X BIRD_RADIUS p))"
    by (subst st) simp
next
  assume "FLOOR_Y cv - BIRD_RADIUS \<le> max BIRD_RADIUS (bird_y s + (bird_vy s + GRAVITY * dt) * dt)"
  then have "FLOOR_Y cv - BIRD_RADIUS \<le> bird_y (bird_physics dt s)"
    by (simp add: bird_physics_y)
  with assms have "update cv dt u s = floor_hit cv (bird_physics dt s)"
    by (rule update_floor)
  then show "state (update cv dt u s) = GAME_OVER" by simp
qed

lemma demo_ceiling_tick:
  "update demo_canvas (1 / 50) 0 demo_ceiling =
     demo_ceiling\<lparr>bird_y := 14, bird_vy := 0, spawnTimer := 1 / 50\<rparr>"
  by (simp add: demo_ceiling_def demo_canvas_def tick_defs constants Let_def)

text \<open>
  The bounds on a bird that jumps into the ceiling (\<open>y = 16\<close>, velocity \<open>-550\<close>, no
  pipes), and the falling bird that reaches the floor bound.
\<close>

theorem bird_stays_in_bounds_witness:
  "state demo_ceiling = PLAYING
   \<and> bird_y demo_ceiling + (bird_vy demo_ceiling + GRAVITY * (1 / 50)) * (1 / 50) < BIRD_RADIUS
   \<and> BIRD_RADIUS < FLOOR_Y demo_canvas - BIRD_RADIUS
   \<and> state (update demo_canvas (1 / 50) 0 demo_ceiling) = PLAYING
   \<and> pipes (update demo_canvas (1 / 50) 0 demo_ceiling) = []
   \<and> bird_y (update demo_canvas (1 / 50) 0 demo_ceiling) = BIRD_RADIUS
   \<and> bird_vy (update demo_canvas (1 / 50) 0 demo_ceiling) = 0
   \<and> BIRD_RADIUS \<le> bird_y (update demo_canvas (1 / 50) 0 demo_ceiling)
   \<and> bird_y (update demo_canvas (1 / 50) 0 demo_ceiling) < FLOOR_Y demo_canvas - BIRD_RADIUS
   \<and> state demo_falling = PLAYING
   \<and> FLOOR_Y demo_canvas - BIRD_RADIUS
       \<le> max BIRD_RADIUS (bird_y demo_falling + (bird_vy demo_falling + GRAVITY * (1 / 50)) * (1 / 50))
   \<and> state (update demo_canvas (1 / 50) 0 demo_falling) = GAME_OVER"
proof -
  have p: "state demo_ceiling = PLAYING" by (simp add: demo_ceiling_def)
  have c: "bird_y demo_ceiling + (bird_vy demo_ceiling + GRAVITY * (1 / 50)) * (1 / 50) < BIRD_RADIUS
     \<and> BIRD_RADIUS < FLOOR_Y demo_canvas - BIRD_RADIUS"
    by (simp add: demo_ceiling_def demo_canvas_def constants)
  have e: "pipes (update demo_canvas (1 / 50) 0 demo_ceiling) = []"
    by (simp add: demo_ceiling_tick) (simp add: demo_ceiling_def)
  have p2: "state demo_falling = PLAYING" by (simp add: demo_falling_fields)
  have f2: "FLOOR_Y demo_canvas - BIRD_RADIUS
       \<le> max BIRD_RADIUS (bird_y demo_falling + (bird_vy demo_falling + GRAVITY * (1 / 50)) * (1 / 50))"
    by (simp add: demo_falling_fields demo_canvas_def constants)
  from bird_stays_in_bounds [OF p2, of demo_canvas "1 / 50" 0] f2
  have g2: "state (update demo_canvas (1 / 50) 0 demo_falling) = GAME_OVER"
    by blast
  from bird_stays_in_bounds [OF p, of demo_canvas "1 / 50" 0] p c e
  have "state (update demo_canvas (1 / 50) 0 demo_ceiling) = PLAYING
   \<and> pipes (update demo_canvas (1 / 50) 0 demo_ceiling) = []
   \<and> bird_y (update demo_canvas (1 / 50) 0 demo_ceiling) = BIRD_RADIUS
   \<and> bird_vy (update demo_canvas (1 / 50) 0 demo_ceiling) = 0
   \<and> BIRD_RADIUS \<le> bird_y (update demo_canvas (1 / 50) 0 demo_ceiling)
   \<and> bird_y (update demo_canvas (1 / 50) 0 demo_ceiling) < FLOOR_Y demo_canvas - BIRD_RADIUS"
    by simp
  with p c p2 f2 g2 show ?thesis by blast
qed

section \<open>Collision with a pipe\<close>

text \<open>
  Claim C10.  When the collision pass finds a pipe that overlaps the bird, it
  sets the state to \<open>GAME_OVER\<close> and the vertical velocity to zero, and leaves the
  vertical position, the score, the spawn timer and the pipes as they were.  For
  the whole tick: when a tick that passed the floor test ends in \<open>GAME_OVER\<close>, the
  velocity is zero and the position is the integrated one, above the floor bound
  --- it is not moved to the floor bound as in the floor case.
\<close>

theorem pipe_collision_frame:
  "((\<exists>p\<in>set (pipes s). pipe_hit cv g BIRD_X (bird_y s) p) \<longrightarrow>
      state (collision cv g s) = GAME_OVER
      \<and> bird_vy (collision cv g s) = 0
      \<and> bird_y (collision cv g s) = bird_y s
      \<and> score (collision cv g s) = score s
      \<and> spawnTimer (collision cv g s) = spawnTimer s
      \<and> pipes (collision cv g s) = pipes s)
   \<and> (state s = PLAYING \<and> bird_y (bird_physics dt s) < FLOOR_Y cv - BIRD_RADIUS
        \<and> state (update cv dt u s) = GAME_OVER \<longrightarrow>
      bird_vy (update cv dt u s) = 0
      \<and> bird_y (update cv dt u s) = max BIRD_RADIUS (bird_y s + (bird_vy s + GRAVITY * dt) * dt)
      \<and> bird_y (update cv dt u s) < FLOOR_Y cv - BIRD_RADIUS)"
proof (intro conjI impI)
  assume "state s = PLAYING \<and> bird_y (bird_physics dt s) < FLOOR_Y cv - BIRD_RADIUS
        \<and> state (update cv dt u s) = GAME_OVER"
  then have p: "state s = PLAYING"
    and f: "bird_y (bird_physics dt s) < FLOOR_Y cv - BIRD_RADIUS"
    and g: "state (update cv dt u s) = GAME_OVER"
    by simp_all
  show "bird_vy (update cv dt u s) = 0"
    using update_flight_vy [OF p f, of u] g by simp
  show "bird_y (update cv dt u s) = max BIRD_RADIUS (bird_y s + (bird_vy s + GRAVITY * dt) * dt)"
    using update_flight_frame(1) [OF p f, of u] by (simp add: bird_physics_y)
  show "bird_y (update cv dt u s) < FLOOR_Y cv - BIRD_RADIUS"
    using update_flight_frame(1) [OF p f, of u] f by simp
qed (simp_all add: collision_eq)

lemma demo_crash_tick:
  "update demo_canvas (1 / 50) 0 demo_crash =
     demo_crash\<lparr>state := GAME_OVER, bird_y := 30572 / 100, bird_vy := 0,
       pipes := [\<lparr>pipe_x = 5512 / 100, gapY = 200, scored = False\<rparr>,
                 \<lparr>pipe_x = 34512 / 100, gapY = 310, scored = False\<rparr>],
       spawnTimer := 32 / 100, bestScore := 4, stored := Some 4, cues := [Hit]\<rparr>"
  by (simp add: demo_crash_def demo_canvas_def tick_defs constants Let_def)

lemma demo_crash_fields:
  "state demo_crash = PLAYING" "bird_y demo_crash = 300" "bird_vy demo_crash = 250"
  "pipes demo_crash = [\<lparr>pipe_x = 60, gapY = 200, scored = False\<rparr>,
                       \<lparr>pipe_x = 350, gapY = 310, scored = False\<rparr>]"
  "spawnTimer demo_crash = 3 / 10" "score demo_crash = 4" "bestScore demo_crash = 2"
  by (simp_all add: demo_crash_def)

text \<open>
  The collision pass on a bird inside the lower segment of the first pipe, and the
  tick of \<open>dt = 0.02\<close> from the same state.
\<close>

theorem pipe_collision_frame_witness:
  "pipe_hit demo_canvas (currentPipeGap 4) BIRD_X (bird_y demo_crash) (hd (pipes demo_crash))
   \<and> state (collision demo_canvas (currentPipeGap 4) demo_crash) = GAME_OVER
   \<and> bird_vy (collision demo_canvas (currentPipeGap 4) demo_crash) = 0
   \<and> bird_y (collision demo_canvas (currentPipeGap 4) demo_crash) = 300
   \<and> score (collision demo_canvas (currentPipeGap 4) demo_crash) = 4
   \<and> spawnTimer (collision demo_canvas (currentPipeGap 4) demo_crash) = 3 / 10
   \<and> pipes (collision demo_canvas (currentPipeGap 4) demo_crash) = pipes demo_crash
   \<and> state (update demo_canvas (1 / 50) 0 demo_crash) = GAME_OVER
   \<and> bird_vy (update demo_canvas (1 / 50) 0 demo_crash) = 0
   \<and> bird_y (update demo_canvas (1 / 50) 0 demo_crash) = 30572 / 100
   \<and> bird_y (update demo_canvas (1 / 50) 0 demo_crash) < FLOOR_Y demo_canvas - BIRD_RADIUS"
proof -
  have h: "pipe_hit demo_canvas (currentPipeGap 4) BIRD_X (bird_y demo_crash) (hd (pipes demo_crash))"
    by (simp add: demo_crash_def demo_canvas_def pipe_hit_def circleIntersectsRect_def
        currentPipeGap_def clamp_def constants Let_def)
  then have ex: "\<exists>p\<in>set (pipes demo_crash).
      pipe_hit demo_canvas (currentPipeGap 4) BIRD_X (bird_y demo_crash) p"
    by (simp add: demo_crash_fields)
  have p: "state demo_crash = PLAYING" by (simp add: demo_crash_fields)
  have f: "bird_y (bird_physics (1 / 50) demo_crash) < FLOOR_Y demo_canvas - BIRD_RADIUS"
    by (simp add: bird_physics_y demo_crash_fields demo_canvas_def constants)
  have g: "state (update demo_canvas (1 / 50) 0 demo_crash) = GAME_OVER"
    by (simp add: demo_crash_tick)
  have y: "max BIRD_RADIUS (bird_y demo_crash + (bird_vy demo_crash + GRAVITY * (1 / 50)) * (1 / 50))
      = 30572 / 100"
    by (simp add: demo_crash_fields constants)
  note th = pipe_collision_frame
      [where s = demo_crash and cv = demo_canvas and g = "currentPipeGap 4"
         and dt = "1 / 50" and u = 0]
  from th ex have a: "state (collision demo_canvas (currentPipeGap 4) demo_crash) = GAME_OVER
      \<and> bird_vy (collision demo_canvas (currentPipeGap 4) demo_crash) = 0
      \<and> bird_y (collision demo_canvas (currentPipeGap 4) demo_crash) = bird_y demo_crash
      \<and> score (collision demo_canvas (currentPipeGap 4) demo_crash) = score demo_crash
      \<and> spawnTimer (collision demo_canvas (currentPipeGap 4) demo_crash) = spawnTimer demo_crash
      \<and> pipes (collision demo_canvas (currentPipeGap 4) demo_crash) = pipes demo_crash"
    by blast
  from th p f g have b: "bird_vy (update demo_canvas (1 / 50) 0 demo_crash) = 0
      \<and> bird_y (update demo_canvas (1 / 50) 0 demo_crash)
          = max BIRD_RADIUS (bird_y demo_crash + (bird_vy demo_crash + GRAVITY * (1 / 50)) * (1 / 50))
      \<and> bird_y (update demo_canvas (1 / 50) 0 demo_crash) < FLOOR_Y demo_canvas - BIRD_RADIUS"
    by blast
  from h a b g show ?thesis
    by (simp only: y) (simp add: demo_crash_fields)
qed

section \<open>Reset\<close>

lemma goToStart_twice: "goToStart cv (goToStart cv s) = goToStart cv s"
  by (simp add: goToStart_def resetRun_def)

lemma goToStart_funpow: "(goToStart cv ^^ Suc n) s = goToStart cv s"
  by (induction n) (simp_all add: goToStart_twice)

lemma step_keeps_start_reset:
  assumes inv: "state s = START \<longrightarrow> goToStart cv s = s"
    and st: "state (step cv s e) = START"
  shows "goToStart cv (step cv s e) = step cv s e"
proof (cases e)
  case (Frame now u)
  let ?s1 = "s\<lparr>last_now := now\<rparr>"
  let ?dt = "min (5 / 100) ((now - last_now s) / 1000)"
  have l: "step cv s e = update cv ?dt u ?s1"
    by (simp add: Frame loop_def Let_def)
  have "state ?s1 = START"
    using st update_never_start [of ?s1 cv ?dt u] unfolding l by auto
  then have s: "state s = START" by simp
  then have u: "update cv ?dt u ?s1 = ?s1" by (simp add: update_not_playing)
  from s inv have "goToStart cv s = s" by simp
  then have "goToStart cv ?s1 = ?s1"
    by (cases s) (simp add: goToStart_def resetRun_def)
  then show ?thesis unfolding l u .
next
  case PrimaryAction
  with st show ?thesis
    by (simp add: onPrimaryAction_def startPlaying_def Let_def split: if_splits)
next
  case KeyR
  then show ?thesis by (simp add: goToStart_twice)
next
  case KeyC
  with st have s: "state s = START" by (simp add: clearBest_def split: if_splits)
  with inv have "goToStart cv s = s" by simp
  then have "goToStart cv (clearBest s) = clearBest s"
    by (cases s) (simp add: goToStart_def resetRun_def clearBest_def)
  with KeyC show ?thesis by simp
next
  case KeyM
  with st have s: "state s = START" by (simp add: toggleMute_def)
  with inv have "goToStart cv s = s" by simp
  then have "goToStart cv (toggleMute s) = toggleMute s"
    by (cases s) (simp add: goToStart_def resetRun_def toggleMute_def)
  with KeyM show ?thesis by simp
qed

lemma run_start_reset:
  "state (run cv (initial cv ok slot t0) es) = START \<Longrightarrow>
   goToStart cv (run cv (initial cv ok slot t0) es) = run cv (initial cv ok slot t0) es"
proof (induction es rule: rev_induct)
  case Nil
  show ?case by (simp add: run_def initial_def goToStart_def resetRun_def)
next
  case (snoc e es)
  show ?case
    unfolding run_snoc
  proof (rule step_keeps_start_reset)
    show "state (run cv (initial cv ok slot t0) es) = START \<longrightarrow>
      goToStart cv (run cv (initial cv ok slot t0) es) = run cv (initial cv ok slot t0) es"
      using snoc.IH by simp
    show "state (step cv (run cv (initial cv ok slot t0) es) e) = START"
      using snoc.prems by (simp add: run_snoc)
  qed
qed

text \<open>
  Claim C8.  Reset is idempotent: applying \<open>goToStart\<close> any number of times (at
  least once) gives the state that one application gives --- state \<open>START\<close>, the
  bird at the start position \<open>canvas.height * 0.35\<close> with velocity zero, no pipes,
  spawn timer \<open>0\<close>, score \<open>0\<close>.  And whenever the game is in \<open>START\<close> (after any
  sequence of frames and commands from the initial state), Reset changes nothing.
\<close>

theorem reset_idempotent:
  "(goToStart cv ^^ Suc n) s = goToStart cv s
   \<and> state (goToStart cv s) = START
   \<and> bird_y (goToStart cv s) = real (height cv) * (35 / 100)
   \<and> bird_vy (goToStart cv s) = 0
   \<and> pipes (goToStart cv s) = []
   \<and> spawnTimer (goToStart cv s) = 0
   \<and> score (goToStart cv s) = 0
   \<and> (state (run cv (initial cv ok slot t0) es) = START \<longrightarrow>
        goToStart cv (run cv (initial cv ok slot t0) es) = run cv (initial cv ok slot t0) es)"
  using goToStart_funpow [where cv = cv and n = n and s = s]
    run_start_reset [where cv = cv and ok = ok and slot = slot and ?t0.0 = t0 and es = es]
  by (simp add: goToStart_def resetRun_def)

text \<open>Reset after a start, a frame and a reset; and three resets of a run in progress.\<close>

theorem reset_idempotent_witness:
  "state (run demo_canvas (initial demo_canvas True (Some 7) 0) [PrimaryAction, Frame 16 0, KeyR]) = START
   \<and> goToStart demo_canvas
        (run demo_canvas (initial demo_canvas True (Some 7) 0) [PrimaryAction, Frame 16 0, KeyR])
       = run demo_canvas (initial demo_canvas True (Some 7) 0) [PrimaryAction, Frame 16 0, KeyR]
   \<and> (goToStart demo_canvas ^^ 3) demo_crash = goToStart demo_canvas demo_crash
   \<and> state (goToStart demo_canvas demo_crash) = START
   \<and> bird_y (goToStart demo_canvas demo_crash) = 224
   \<and> bird_vy (goToStart demo_canvas demo_crash) = 0
   \<and> pipes (goToStart demo_canvas demo_crash) = []
   \<and> spawnTimer (goToStart demo_canvas demo_crash) = 0
   \<and> score (goToStart demo_canvas demo_crash) = 0"
proof -
  have s: "state (run demo_canvas (initial demo_canvas True (Some 7) 0)
      [PrimaryAction, Frame 16 0, KeyR]) = START"
    by (simp add: run_def goToStart_def)
  have h: "real (height demo_canvas) * (35 / 100) = 224"
    by (simp add: demo_canvas_def)
  show ?thesis
    using reset_idempotent [where cv = demo_canvas and n = 2 and s = demo_crash
        and ok = True and slot = "Some 7" and ?t0.0 = 0
        and es = "[PrimaryAction, Frame 16 0, KeyR]"] s h
    by (simp add: numeral_3_eq_3)
qed

section \<open>Scoring\<close>

text \<open>
  Claim C3.  The scoring pass sets the \<open>scored\<close> flag of a pipe exactly when the
  flag is already set or the trailing edge \<open>x + PIPE_WIDTH\<close> is strictly left of
  \<open>BIRD_X\<close>, and it adds to the score the number of pipes whose flag it turns from
  false to true: one point per transition.  A set flag stays set, so a pipe is
  counted at most once.  For a whole tick that passes the floor test the same
  holds of the pipes that are left after spawning, moving and pruning; a tick
  that is idle or ends on the floor, a primary action during \<open>PLAYING\<close>, and the
  keys C and M leave the pipes (and so every flag) and the score unchanged.  Only
  \<open>resetRun\<close>, which empties the list, starts a new run.
\<close>

theorem scored_once:
  "pipes (scoring s) =
     map (\<lambda>p. p\<lparr>scored := scored p \<or> pipe_x p + PIPE_WIDTH < BIRD_X\<rparr>) (pipes s)
   \<and> score (scoring s) =
       score s + length (filter (\<lambda>p. \<not> scored p \<and> pipe_x p + PIPE_WIDTH < BIRD_X) (pipes s))
   \<and> (state s = PLAYING \<and> bird_y (bird_physics dt s) < FLOOR_Y cv - BIRD_RADIUS \<longrightarrow>
        (let moved =
           filter (\<lambda>p. 0 < pipe_x p + PIPE_WIDTH)
             (map (\<lambda>p. p\<lparr>pipe_x := pipe_x p - currentPipeSpeed (score s) * dt\<rparr>)
                (pipes s @
                 (if currentSpawnEvery (score s) \<le> spawnTimer s + dt
                  then [\<lparr>pipe_x = real (width cv) + PIPE_WIDTH,
                         gapY = rand (PIPE_MARGIN + currentPipeGap (score s) / 2)
                                  (FLOOR_Y cv - PIPE_MARGIN - currentPipeGap (score s) / 2) u,
                         scored = False\<rparr>]
                  else [])))
         in pipes (update cv dt u s) =
              map (\<lambda>p. p\<lparr>scored := scored p \<or> pipe_x p + PIPE_WIDTH < BIRD_X\<rparr>) moved
            \<and> score (update cv dt u s) =
                score s + length (filter (\<lambda>p. \<not> scored p \<and> pipe_x p + PIPE_WIDTH < BIRD_X) moved)))
   \<and> (state s \<noteq> PLAYING \<or> FLOOR_Y cv - BIRD_RADIUS \<le> bird_y (bird_physics dt s) \<longrightarrow>
        pipes (update cv dt u s) = pipes s \<and> score (update cv dt u s) = score s)
   \<and> (state s = PLAYING \<longrightarrow>
        pipes (onPrimaryAction cv s) = pipes s \<and> score (onPrimaryAction cv s) = score s)
   \<and> pipes (clearBest s) = pipes s \<and> score (clearBest s) = score s
   \<and> pipes (toggleMute s) = pipes s \<and> score (toggleMute s) = score s"
proof -
  have passed_eq: "passed = (\<lambda>p. \<not> scored p \<and> pipe_x p + PIPE_WIDTH < BIRD_X)"
    by (rule ext) (simp add: passed_def)
  have pass: "pipes (scoring s) =
      map (\<lambda>p. p\<lparr>scored := scored p \<or> pipe_x p + PIPE_WIDTH < BIRD_X\<rparr>) (pipes s)"
    by (rule scoring_pipes)
  have count: "score (scoring s) =
      score s + length (filter (\<lambda>p. \<not> scored p \<and> pipe_x p + PIPE_WIDTH < BIRD_X) (pipes s))"
    using scoring_score [of s] by (simp only: passed_eq)
  have tick: "state s = PLAYING \<and> bird_y (bird_physics dt s) < FLOOR_Y cv - BIRD_RADIUS \<longrightarrow>
        (let moved =
           filter (\<lambda>p. 0 < pipe_x p + PIPE_WIDTH)
             (map (\<lambda>p. p\<lparr>pipe_x := pipe_x p - currentPipeSpeed (score s) * dt\<rparr>)
                (pipes s @
                 (if currentSpawnEvery (score s) \<le> spawnTimer s + dt
                  then [\<lparr>pipe_x = real (width cv) + PIPE_WIDTH,
                         gapY = rand (PIPE_MARGIN + currentPipeGap (score s) / 2)
                                  (FLOOR_Y cv - PIPE_MARGIN - currentPipeGap (score s) / 2) u,
                         scored = False\<rparr>]
                  else [])))
         in pipes (update cv dt u s) =
              map (\<lambda>p. p\<lparr>scored := scored p \<or> pipe_x p + PIPE_WIDTH < BIRD_X\<rparr>) moved
            \<and> score (update cv dt u s) =
                score s + length (filter (\<lambda>p. \<not> scored p \<and> pipe_x p + PIPE_WIDTH < BIRD_X) moved))"
    unfolding Let_def
    using update_flight_pipes [of s dt cv u] update_flight_score [of s dt cv u]
    by (simp only: passed_eq) blast
  have idle: "state s \<noteq> PLAYING \<or> FLOOR_Y cv - BIRD_RADIUS \<le> bird_y (bird_physics dt s) \<longrightarrow>
        pipes (update cv dt u s) = pipes s \<and> score (update cv dt u s) = score s"
    using update_idle [of s cv dt u] by blast
  have cmds: "(state s = PLAYING \<longrightarrow>
        pipes (onPrimaryAction cv s) = pipes s \<and> score (onPrimaryAction cv s) = score s)
   \<and> pipes (clearBest s) = pipes s \<and> score (clearBest s) = score s
   \<and> pipes (toggleMute s) = pipes s \<and> score (toggleMute s) = score s"
    by (simp add: onPrimaryAction_def clearBest_def toggleMute_def)
  from pass count tick idle cmds show ?thesis by blast
qed

text \<open>
  A pipe whose trailing edge passes the bird in the first tick: it is marked and
  the score becomes \<open>1\<close>; the second tick leaves the mark and the score.  A
  primary action and a tick that ends on the floor change neither.
\<close>

theorem scored_once_witness:
  "state demo_passing = PLAYING
   \<and> bird_y (bird_physics (1 / 50) demo_passing) < FLOOR_Y demo_canvas - BIRD_RADIUS
   \<and> pipes demo_passing = [\<lparr>pipe_x = 144 / 10, gapY = 3748 / 10, scored = False\<rparr>]
   \<and> score demo_passing = 0
   \<and> pipes (update demo_canvas (1 / 50) 0 demo_passing)
       = [\<lparr>pipe_x = 10, gapY = 3748 / 10, scored = True\<rparr>]
   \<and> score (update demo_canvas (1 / 50) 0 demo_passing) = 1
   \<and> pipes (update demo_canvas (1 / 50) 0 (update demo_canvas (1 / 50) 0 demo_passing))
       = [\<lparr>pipe_x = 548 / 100, gapY = 3748 / 10, scored = True\<rparr>]
   \<and> score (update demo_canvas (1 / 50) 0 (update demo_canvas (1 / 50) 0 demo_passing)) = 1
   \<and> pipes (onPrimaryAction demo_canvas demo_passing) = pipes demo_passing
   \<and> score (onPrimaryAction demo_canvas demo_passing) = score demo_passing
   \<and> state demo_falling = PLAYING
   \<and> FLOOR_Y demo_canvas - BIRD_RADIUS \<le> bird_y (bird_physics (1 / 50) demo_falling)
   \<and> pipes (update demo_canvas (1 / 50) 0 demo_falling) = pipes demo_falling
   \<and> score (update demo_canvas (1 / 50) 0 demo_falling) = score demo_falling"
proof -
  have p: "state demo_passing = PLAYING" by (simp add: demo_passing_fields)
  have f: "bird_y (bird_physics (1 / 50) demo_passing) < FLOOR_Y demo_canvas - BIRD_RADIUS"
    by (simp add: bird_physics_y demo_passing_fields demo_canvas_def constants)
  have v: "currentPipeSpeed 0 = 220" "currentSpawnEvery 0 = 135 / 100"
    by (simp_all add: currentPipeSpeed_def currentSpawnEvery_def clamp_def constants)
  note th = scored_once [where s = demo_passing and cv = demo_canvas and dt = "1 / 50" and u = 0]
  from th p f have first:
    "pipes (update demo_canvas (1 / 50) 0 demo_passing)
       = [\<lparr>pipe_x = 10, gapY = 3748 / 10, scored = True\<rparr>]
     \<and> score (update demo_canvas (1 / 50) 0 demo_passing) = 1"
    by (simp add: Let_def demo_passing_fields v PIPE_WIDTH_def BIRD_X_def)
  from th p have cmd: "pipes (onPrimaryAction demo_canvas demo_passing) = pipes demo_passing
   \<and> score (onPrimaryAction demo_canvas demo_passing) = score demo_passing"
    by blast
  have second:
    "pipes (update demo_canvas (1 / 50) 0 (update demo_canvas (1 / 50) 0 demo_passing))
       = [\<lparr>pipe_x = 548 / 100, gapY = 3748 / 10, scored = True\<rparr>]
     \<and> score (update demo_canvas (1 / 50) 0 (update demo_canvas (1 / 50) 0 demo_passing)) = 1"
    by (simp add: demo_passing_second_tick)
  have p2: "state demo_falling = PLAYING" by (simp add: demo_falling_fields)
  have f2: "FLOOR_Y demo_canvas - BIRD_RADIUS \<le> bird_y (bird_physics (1 / 50) demo_falling)"
    by (simp add: bird_physics_y demo_falling_fields demo_canvas_def constants)
  from scored_once [where s = demo_falling and cv = demo_canvas and dt = "1 / 50" and u = 0] f2
  have idle: "pipes (update demo_canvas (1 / 50) 0 demo_falling) = pipes demo_falling
   \<and> score (update demo_canvas (1 / 50) 0 demo_falling) = score demo_falling"
    by blast
  have d: "pipes demo_passing = [\<lparr>pipe_x = 144 / 10, gapY = 3748 / 10, scored = False\<rparr>]
    \<and> score demo_passing = 0"
    by (simp add: demo_passing_fields)
  from p f d first second cmd p2 f2 idle show ?thesis by blast
qed

section \<open>Which score the difficulty values of a tick are computed from\<close>

text \<open>
  Claim C1 does not hold as stated.  \<open>update\<close> calls \<open>currentPipeSpeed\<close>,
  \<open>currentPipeGap\<close> and \<open>currentSpawnEvery\<close> once, at the top of the tick (lines
  385--387), and the collision pass uses that \<open>pipeGap\<close> constant.  In the state
  below the scoring pass takes the score from \<open>0\<close> to \<open>1\<close>; with the gap of the
  new score (\<open>168.8\<close>) the pipe overlaps the bird, with the gap of the old score
  (\<open>170\<close>) it does not, and the tick ends in \<open>PLAYING\<close>.
\<close>

theorem collision_gap_counterexample:
  "state demo_passing = PLAYING
   \<and> score demo_passing = 0
   \<and> score (update demo_canvas (1 / 50) 0 demo_passing) = 1
   \<and> pipes (update demo_canvas (1 / 50) 0 demo_passing)
       = [\<lparr>pipe_x = 10, gapY = 3748 / 10, scored = True\<rparr>]
   \<and> bird_y (update demo_canvas (1 / 50) 0 demo_passing) = 300
   \<and> pipe_hit demo_canvas (currentPipeGap 1) BIRD_X 300
        \<lparr>pipe_x = 10, gapY = 3748 / 10, scored = True\<rparr>
   \<and> \<not> pipe_hit demo_canvas (currentPipeGap 0) BIRD_X 300
        \<lparr>pipe_x = 10, gapY = 3748 / 10, scored = True\<rparr>
   \<and> state (update demo_canvas (1 / 50) 0 demo_passing) = PLAYING"
proof -
  have "pipe_hit demo_canvas (currentPipeGap 1) BIRD_X 300
        \<lparr>pipe_x = 10, gapY = 3748 / 10, scored = True\<rparr>"
    by (simp add: demo_canvas_def pipe_hit_def circleIntersectsRect_def
        currentPipeGap_def clamp_def constants Let_def)
  moreover have "\<not> pipe_hit demo_canvas (currentPipeGap 0) BIRD_X 300
        \<lparr>pipe_x = 10, gapY = 3748 / 10, scored = True\<rparr>"
    by (simp add: demo_canvas_def pipe_hit_def circleIntersectsRect_def
        currentPipeGap_def clamp_def constants Let_def)
  ultimately show ?thesis
    by (simp add: demo_passing_tick) (simp add: demo_passing_def)
qed

text \<open>
  Claim C1, amended.  In every tick during \<open>PLAYING\<close> (that passes the floor
  test) the three difficulty values are computed once, from the score at the
  start of the tick, and are used throughout the tick: the spawn timer is
  compared with \<open>currentSpawnEvery\<close> of that score, the pipes move by
  \<open>currentPipeSpeed\<close> of that score times \<open>dt\<close>, and the collision pass tests the
  pipes with \<open>currentPipeGap\<close> of that score, also when the scoring pass has
  incremented the score in the same tick.  The incremented score takes effect in
  the next tick.
\<close>

theorem tick_difficulty_from_start_score:
  assumes "state s = PLAYING" and "bird_y (bird_physics dt s) < FLOOR_Y cv - BIRD_RADIUS"
  shows "state (update cv dt u s) =
           (if \<exists>p\<in>set (pipes (update cv dt u s)).
                 pipe_hit cv (currentPipeGap (score s)) BIRD_X (bird_y (update cv dt u s)) p
            then GAME_OVER else PLAYING)
   \<and> spawnTimer (update cv dt u s) =
       (if currentSpawnEvery (score s) \<le> spawnTimer s + dt then 0 else spawnTimer s + dt)
   \<and> map pipe_x (pipes (update cv dt u s)) =
       filter (\<lambda>x. 0 < x + PIPE_WIDTH)
         (map (\<lambda>x. x - currentPipeSpeed (score s) * dt)
            (map pipe_x (pipes s) @
             (if currentSpawnEvery (score s) \<le> spawnTimer s + dt
              then [real (width cv) + PIPE_WIDTH] else [])))"
proof (intro conjI)
  show "state (update cv dt u s) =
           (if \<exists>p\<in>set (pipes (update cv dt u s)).
                 pipe_hit cv (currentPipeGap (score s)) BIRD_X (bird_y (update cv dt u s)) p
            then GAME_OVER else PLAYING)"
    using assms by (rule update_flight_state)
  show "spawnTimer (update cv dt u s) =
       (if currentSpawnEvery (score s) \<le> spawnTimer s + dt then 0 else spawnTimer s + dt)"
    using assms by (rule update_flight_frame(4))
  show "map pipe_x (pipes (update cv dt u s)) =
       filter (\<lambda>x. 0 < x + PIPE_WIDTH)
         (map (\<lambda>x. x - currentPipeSpeed (score s) * dt)
            (map pipe_x (pipes s) @
             (if currentSpawnEvery (score s) \<le> spawnTimer s + dt
              then [real (width cv) + PIPE_WIDTH] else [])))"
    by (simp add: update_flight_pipes [OF assms] o_def map_pipe_x_visible)
qed

text \<open>The amended claim on the state of the counterexample.\<close>

theorem tick_difficulty_witness:
  "state demo_passing = PLAYING
   \<and> bird_y (bird_physics (1 / 50) demo_passing) < FLOOR_Y demo_canvas - BIRD_RADIUS
   \<and> score demo_passing = 0
   \<and> score (update demo_canvas (1 / 50) 0 demo_passing) = 1
   \<and> pipe_hit demo_canvas (currentPipeGap 1) BIRD_X
        (bird_y (update demo_canvas (1 / 50) 0 demo_passing))
        (hd (pipes (update demo_canvas (1 / 50) 0 demo_passing)))
   \<and> \<not> pipe_hit demo_canvas (currentPipeGap 0) BIRD_X
        (bird_y (update demo_canvas (1 / 50) 0 demo_passing))
        (hd (pipes (update demo_canvas (1 / 50) 0 demo_passing)))
   \<and> state (update demo_canvas (1 / 50) 0 demo_passing) = PLAYING
   \<and> spawnTimer (update demo_canvas (1 / 50) 0 demo_passing) = 1 / 50
   \<and> map pipe_x (pipes (update demo_canvas (1 / 50) 0 demo_passing)) = [10]"
proof -
  have p: "state demo_passing = PLAYING" by (simp add: demo_passing_fields)
  have f: "bird_y (bird_physics (1 / 50) demo_passing) < FLOOR_Y demo_canvas - BIRD_RADIUS"
    by (simp add: bird_physics_y demo_passing_fields demo_canvas_def constants)
  have v: "currentPipeSpeed 0 = 220" "currentSpawnEvery 0 = 135 / 100"
    by (simp_all add: currentPipeSpeed_def currentSpawnEvery_def clamp_def constants)
  have t: "pipes (update demo_canvas (1 / 50) 0 demo_passing)
       = [\<lparr>pipe_x = 10, gapY = 3748 / 10, scored = True\<rparr>]"
    "bird_y (update demo_canvas (1 / 50) 0 demo_passing) = 300"
    "score (update demo_canvas (1 / 50) 0 demo_passing) = 1"
    by (simp_all add: demo_passing_tick) (simp_all add: demo_passing_def)
  have h1: "pipe_hit demo_canvas (currentPipeGap 1) BIRD_X 300
        \<lparr>pipe_x = 10, gapY = 3748 / 10, scored = True\<rparr>"
    by (simp add: demo_canvas_def pipe_hit_def circleIntersectsRect_def
        currentPipeGap_def clamp_def constants Let_def)
  have h0: "\<not> pipe_hit demo_canvas (currentPipeGap 0) BIRD_X 300
        \<lparr>pipe_x = 10, gapY = 3748 / 10, scored = True\<rparr>"
    by (simp add: demo_canvas_def pipe_hit_def circleIntersectsRect_def
        currentPipeGap_def clamp_def constants Let_def)
  note th = tick_difficulty_from_start_score [OF p f, of 0]
  from th h0 have st: "state (update demo_canvas (1 / 50) 0 demo_passing) = PLAYING"
    by (simp add: t demo_passing_fields)
  from th have tm: "spawnTimer (update demo_canvas (1 / 50) 0 demo_passing) = 1 / 50"
    by (simp add: demo_passing_fields v)
  from p f h1 h0 st tm show ?thesis
    by (simp add: t demo_passing_fields)
qed

section \<open>Pipes on the canvas\<close>

lemma marked_visible:
  "\<forall>p\<in>set (map (\<lambda>p. p\<lparr>scored := f p\<rparr>) (filter (\<lambda>p. 0 < pipe_x p + PIPE_WIDTH) xs)).
     0 < pipe_x p + PIPE_WIDTH"
  by auto

lemma update_flight_visible:
  assumes "state s = PLAYING" and "bird_y (bird_physics dt s) < FLOOR_Y cv - BIRD_RADIUS"
  shows "\<forall>p\<in>set (pipes (update cv dt u s)). 0 < pipe_x p + PIPE_WIDTH"
  unfolding update_flight_pipes [OF assms] by (rule marked_visible)

lemma update_keeps_visible:
  assumes "\<forall>p\<in>set (pipes s). 0 < pipe_x p + PIPE_WIDTH"
  shows "\<forall>p\<in>set (pipes (update cv dt u s)). 0 < pipe_x p + PIPE_WIDTH"
proof (cases "state s = PLAYING \<and> bird_y (bird_physics dt s) < FLOOR_Y cv - BIRD_RADIUS")
  case True
  then show ?thesis using update_flight_visible [of s dt cv u] by blast
next
  case False
  then have "pipes (update cv dt u s) = pipes s"
    using update_idle(1) [of s cv dt u] by auto
  with assms show ?thesis by simp
qed

lemma step_keeps_visible:
  assumes "\<forall>p\<in>set (pipes s). 0 < pipe_x p + PIPE_WIDTH"
  shows "\<forall>p\<in>set (pipes (step cv s e)). 0 < pipe_x p + PIPE_WIDTH"
proof (cases e)
  case (Frame now u)
  have "\<forall>p\<in>set (pipes (s\<lparr>last_now := now\<rparr>)). 0 < pipe_x p + PIPE_WIDTH"
    using assms by simp
  then show ?thesis
    unfolding Frame step.simps loop_def Let_def by (rule update_keeps_visible)
next
  case PrimaryAction
  with assms show ?thesis
    by (simp add: onPrimaryAction_def startPlaying_def resetRun_def Let_def)
next
  case KeyR
  then show ?thesis by (simp add: goToStart_def resetRun_def)
next
  case KeyC
  with assms show ?thesis by (simp add: clearBest_def)
next
  case KeyM
  with assms show ?thesis by (simp add: toggleMute_def)
qed

lemma run_keeps_visible:
  "\<forall>p\<in>set (pipes (run cv (initial cv ok slot t0) es)). 0 < pipe_x p + PIPE_WIDTH"
proof (induction es rule: rev_induct)
  case Nil
  show ?case by (simp add: run_def initial_def)
next
  case (snoc e es)
  then show ?case unfolding run_snoc by (rule step_keeps_visible)
qed

lemma speed_step_bound:
  assumes "dt \<le> 5 / 100"
  shows "currentPipeSpeed sc * dt \<le> 18"
proof (cases "0 \<le> dt")
  case True
  have "currentPipeSpeed sc \<le> 360" "0 \<le> currentPipeSpeed sc"
    by (simp_all add: currentPipeSpeed_def clamp_def constants)
  then have "currentPipeSpeed sc * dt \<le> 360 * dt"
    using True by (simp add: mult_right_mono)
  with assms show ?thesis by simp
next
  case False
  have "0 \<le> currentPipeSpeed sc"
    by (simp add: currentPipeSpeed_def clamp_def constants)
  with False have "currentPipeSpeed sc * dt \<le> 0"
    by (simp add: mult_nonneg_nonpos)
  then show ?thesis by simp
qed

text \<open>
  Claim C4.  In every state that the game reaches from its initial state --- in
  particular after every call of \<open>update\<close> --- each pipe of the list has its
  trailing edge \<open>x + PIPE_WIDTH\<close> strictly right of \<open>0\<close>: \<open>update\<close> preserves this,
  and a tick that reaches the move step establishes it.  A pipe that is spawned
  in a tick with \<open>dt \<le> 0.05\<close> (the bound that \<open>loop\<close> enforces) is not pruned in
  that tick: it is the last pipe of the list after the tick, moved by the speed
  of the tick and not scored.
\<close>

theorem pipes_stay_visible:
  "(\<forall>p\<in>set (pipes (run cv (initial cv ok slot t0) es)). 0 < pipe_x p + PIPE_WIDTH)
   \<and> ((\<forall>p\<in>set (pipes s). 0 < pipe_x p + PIPE_WIDTH) \<longrightarrow>
        (\<forall>p\<in>set (pipes (update cv dt u s)). 0 < pipe_x p + PIPE_WIDTH))
   \<and> (state s = PLAYING \<and> bird_y (bird_physics dt s) < FLOOR_Y cv - BIRD_RADIUS \<longrightarrow>
        (\<forall>p\<in>set (pipes (update cv dt u s)). 0 < pipe_x p + PIPE_WIDTH))
   \<and> (state s = PLAYING \<and> bird_y (bird_physics dt s) < FLOOR_Y cv - BIRD_RADIUS
        \<and> currentSpawnEvery (score s) \<le> spawnTimer s + dt \<and> dt \<le> 5 / 100 \<longrightarrow>
        pipes (update cv dt u s) \<noteq> []
        \<and> last (pipes (update cv dt u s)) =
            \<lparr>pipe_x = real (width cv) + PIPE_WIDTH - currentPipeSpeed (score s) * dt,
             gapY = rand (PIPE_MARGIN + currentPipeGap (score s) / 2)
                      (FLOOR_Y cv - PIPE_MARGIN - currentPipeGap (score s) / 2) u,
             scored = False\<rparr>
        \<and> length (pipes (update cv dt u s)) =
            Suc (length (filter (\<lambda>p. 0 < pipe_x p - currentPipeSpeed (score s) * dt + PIPE_WIDTH)
                           (pipes s))))"
proof (intro conjI impI)
  show "\<forall>p\<in>set (pipes (run cv (initial cv ok slot t0) es)). 0 < pipe_x p + PIPE_WIDTH"
    by (rule run_keeps_visible)
next
  assume "\<forall>p\<in>set (pipes s). 0 < pipe_x p + PIPE_WIDTH"
  then show "\<forall>p\<in>set (pipes (update cv dt u s)). 0 < pipe_x p + PIPE_WIDTH"
    by (rule update_keeps_visible)
next
  assume "state s = PLAYING \<and> bird_y (bird_physics dt s) < FLOOR_Y cv - BIRD_RADIUS"
  then show "\<forall>p\<in>set (pipes (update cv dt u s)). 0 < pipe_x p + PIPE_WIDTH"
    using update_flight_visible [of s dt cv u] by blast
next
  assume a: "state s = PLAYING \<and> bird_y (bird_physics dt s) < FLOOR_Y cv - BIRD_RADIUS
        \<and> currentSpawnEvery (score s) \<le> spawnTimer s + dt \<and> dt \<le> 5 / 100"
  then have far: "currentPipeSpeed (score s) * dt \<le> 18"
    by (simp add: speed_step_bound)
  have w: "0 \<le> real (width cv)" by simp
  from far w have vis: "0 < real (width cv) + PIPE_WIDTH - currentPipeSpeed (score s) * dt + PIPE_WIDTH"
    and unscored: "\<not> real (width cv) + PIPE_WIDTH - currentPipeSpeed (score s) * dt + PIPE_WIDTH < BIRD_X"
    unfolding PIPE_WIDTH_def BIRD_X_def by linarith+
  from a have eq: "pipes (update cv dt u s) =
      map (\<lambda>p. p\<lparr>scored := scored p \<or> pipe_x p + PIPE_WIDTH < BIRD_X\<rparr>)
        (filter (\<lambda>p. 0 < pipe_x p + PIPE_WIDTH)
           (map (\<lambda>p. p\<lparr>pipe_x := pipe_x p - currentPipeSpeed (score s) * dt\<rparr>) (pipes s)))
      @ [\<lparr>pipe_x = real (width cv) + PIPE_WIDTH - currentPipeSpeed (score s) * dt,
          gapY = rand (PIPE_MARGIN + currentPipeGap (score s) / 2)
                   (FLOOR_Y cv - PIPE_MARGIN - currentPipeGap (score s) / 2) u,
          scored = False\<rparr>]"
    using vis unscored by (simp add: update_flight_pipes)
  show "pipes (update cv dt u s) \<noteq> []"
    by (simp add: eq)
  show "last (pipes (update cv dt u s)) =
            \<lparr>pipe_x = real (width cv) + PIPE_WIDTH - currentPipeSpeed (score s) * dt,
             gapY = rand (PIPE_MARGIN + currentPipeGap (score s) / 2)
                      (FLOOR_Y cv - PIPE_MARGIN - currentPipeGap (score s) / 2) u,
             scored = False\<rparr>"
    by (simp add: eq)
  show "length (pipes (update cv dt u s)) =
            Suc (length (filter (\<lambda>p. 0 < pipe_x p - currentPipeSpeed (score s) * dt + PIPE_WIDTH)
                           (pipes s)))"
    by (simp add: eq filter_map o_def)
qed

lemma demo_spawn_tick:
  "update demo_canvas (1 / 50) (1 / 2) demo_spawn =
     demo_spawn\<lparr>bird_y := 30072 / 100, bird_vy := 36,
       pipes := [\<lparr>pipe_x = 42548 / 100, gapY = 285, scored = False\<rparr>],
       spawnTimer := 0\<rparr>"
  by (simp add: demo_spawn_def demo_canvas_def tick_defs constants Let_def)

lemma demo_spawn_fields:
  "state demo_spawn = PLAYING" "bird_y demo_spawn = 300" "bird_vy demo_spawn = 0"
  "pipes demo_spawn = [\<lparr>pipe_x = - 68, gapY = 300, scored = True\<rparr>]"
  "spawnTimer demo_spawn = 134 / 100" "score demo_spawn = 1" "bestScore demo_spawn = 1"
  by (simp_all add: demo_spawn_def)

text \<open>
  A tick that spawns a pipe and prunes the old one (trailing edge \<open>2\<close> before the
  tick, \<open>-2.52\<close> after the move); and the state after a start and two frames.
\<close>

theorem pipes_stay_visible_witness:
  "state demo_spawn = PLAYING
   \<and> bird_y (bird_physics (1 / 50) demo_spawn) < FLOOR_Y demo_canvas - BIRD_RADIUS
   \<and> currentSpawnEvery (score demo_spawn) \<le> spawnTimer demo_spawn + 1 / 50
   \<and> (1 / 50 :: real) \<le> 5 / 100
   \<and> list_all (\<lambda>p. 0 < pipe_x p + PIPE_WIDTH) (pipes demo_spawn)
   \<and> pipes (update demo_canvas (1 / 50) (1 / 2) demo_spawn)
       = [\<lparr>pipe_x = 42548 / 100, gapY = 285, scored = False\<rparr>]
   \<and> list_all (\<lambda>p. 0 < pipe_x p + PIPE_WIDTH) (pipes (update demo_canvas (1 / 50) (1 / 2) demo_spawn))
   \<and> last (pipes (update demo_canvas (1 / 50) (1 / 2) demo_spawn))
       = \<lparr>pipe_x = 42548 / 100, gapY = 285, scored = False\<rparr>
   \<and> length (pipes (update demo_canvas (1 / 50) (1 / 2) demo_spawn)) = 1
   \<and> list_all (\<lambda>p. 0 < pipe_x p + PIPE_WIDTH)
        (pipes (run demo_canvas (initial demo_canvas True None 0)
           [PrimaryAction, Frame 16 (1 / 2), KeyM, Frame 33 (1 / 2)]))"
proof -
  have p: "state demo_spawn = PLAYING" by (simp add: demo_spawn_fields)
  have f: "bird_y (bird_physics (1 / 50) demo_spawn) < FLOOR_Y demo_canvas - BIRD_RADIUS"
    by (simp add: bird_physics_y demo_spawn_fields demo_canvas_def constants)
  have v: "currentPipeSpeed (Suc 0) = 226" "currentSpawnEvery (Suc 0) = 134 / 100"
    "currentPipeGap (Suc 0) = 1688 / 10"
    by (simp_all add: currentPipeSpeed_def currentSpawnEvery_def currentPipeGap_def
        clamp_def constants)
  have c: "currentSpawnEvery (score demo_spawn) \<le> spawnTimer demo_spawn + 1 / 50"
    by (simp add: demo_spawn_fields v)
  have i: "\<forall>p\<in>set (pipes demo_spawn). 0 < pipe_x p + PIPE_WIDTH"
    by (simp add: demo_spawn_fields PIPE_WIDTH_def)
  note th = pipes_stay_visible [where cv = demo_canvas and s = demo_spawn and dt = "1 / 50"
      and u = "1 / 2" and ok = True and slot = None and ?t0.0 = 0
      and es = "[PrimaryAction, Frame 16 (1 / 2), KeyM, Frame 33 (1 / 2)]"]
  from th have r: "list_all (\<lambda>p. 0 < pipe_x p + PIPE_WIDTH)
        (pipes (run demo_canvas (initial demo_canvas True None 0)
           [PrimaryAction, Frame 16 (1 / 2), KeyM, Frame 33 (1 / 2)]))"
    unfolding list_all_iff by blast
  from th i have k: "list_all (\<lambda>p. 0 < pipe_x p + PIPE_WIDTH)
      (pipes (update demo_canvas (1 / 50) (1 / 2) demo_spawn))"
    unfolding list_all_iff by blast
  from th p f c have n: "last (pipes (update demo_canvas (1 / 50) (1 / 2) demo_spawn)) =
            \<lparr>pipe_x = real (width demo_canvas) + PIPE_WIDTH - currentPipeSpeed (score demo_spawn) * (1 / 50),
             gapY = rand (PIPE_MARGIN + currentPipeGap (score demo_spawn) / 2)
                      (FLOOR_Y demo_canvas - PIPE_MARGIN - currentPipeGap (score demo_spawn) / 2) (1 / 2),
             scored = False\<rparr>
        \<and> length (pipes (update demo_canvas (1 / 50) (1 / 2) demo_spawn)) =
            Suc (length (filter (\<lambda>p. 0 < pipe_x p - currentPipeSpeed (score demo_spawn) * (1 / 50) + PIPE_WIDTH)
                           (pipes demo_spawn)))"
    by simp
  have e: "pipes (update demo_canvas (1 / 50) (1 / 2) demo_spawn)
       = [\<lparr>pipe_x = 42548 / 100, gapY = 285, scored = False\<rparr>]"
    by (simp add: demo_spawn_tick)
  from n have n': "last (pipes (update demo_canvas (1 / 50) (1 / 2) demo_spawn))
       = \<lparr>pipe_x = 42548 / 100, gapY = 285, scored = False\<rparr>
     \<and> length (pipes (update demo_canvas (1 / 50) (1 / 2) demo_spawn)) = 1"
    by (simp add: demo_spawn_fields v demo_canvas_def rand_def constants)
  from p f c i r k n' e show ?thesis
    by (simp add: list_all_iff)
qed

section \<open>The best score\<close>

lemma update_best_mono: "bestScore s \<le> bestScore (update cv dt u s)"
proof (cases "state s = PLAYING")
  case False
  then show ?thesis by (simp add: update_not_playing)
next
  case True
  show ?thesis
  proof (cases "bird_y (bird_physics dt s) < FLOOR_Y cv - BIRD_RADIUS")
    case False
    with True show ?thesis by (simp add: update_floor)
  next
    case flight: True
    let ?s3 = "move_pipes (currentPipeSpeed (score s)) dt
          (spawn_pipes cv dt u (currentSpawnEvery (score s)) (currentPipeGap (score s))
             (bird_physics dt s))"
    have "bestScore ?s3 \<le> bestScore (scoring ?s3)"
      by (simp add: scoring_best)
    moreover have "bestScore (scoring ?s3)
        \<le> bestScore (collision cv (currentPipeGap (score s)) (scoring ?s3))"
      by (simp add: collision_eq)
    ultimately show ?thesis
      by (simp add: update_flight [OF True flight])
  qed
qed

lemma update_game_over_best:
  assumes "state s = PLAYING" and "state (update cv dt u s) = GAME_OVER"
  shows "bestScore (update cv dt u s) = max (bestScore s) (score (update cv dt u s))"
proof (cases "bird_y (bird_physics dt s) < FLOOR_Y cv - BIRD_RADIUS")
  case False
  with assms(1) show ?thesis by (simp add: update_floor)
next
  case True
  let ?s4 = "scoring (move_pipes (currentPipeSpeed (score s)) dt
          (spawn_pipes cv dt u (currentSpawnEvery (score s)) (currentPipeGap (score s))
             (bird_physics dt s)))"
  have u: "update cv dt u s = collision cv (currentPipeGap (score s)) ?s4"
    using assms(1) True by (rule update_flight)
  have p4: "state ?s4 = PLAYING" using assms(1) by simp
  have h: "update cv dt u s = hit_pipe ?s4"
  proof (cases "\<exists>p\<in>set (pipes ?s4). pipe_hit cv (currentPipeGap (score s)) BIRD_X (bird_y ?s4) p")
    case True
    then show ?thesis unfolding u collision_eq by (rule if_P)
  next
    case False
    then have "update cv dt u s = ?s4" unfolding u collision_eq by (rule if_not_P)
    with assms(2) p4 show ?thesis by simp
  qed
  show ?thesis
    unfolding h by (simp add: scoring_best scoring_score)
qed

lemma step_best_mono: "e \<noteq> KeyC \<Longrightarrow> bestScore s \<le> bestScore (step cv s e)"
proof (cases e)
  case (Frame now u)
  have "bestScore (s\<lparr>last_now := now\<rparr>) \<le>
      bestScore (update cv (min (5 / 100) ((now - last_now s) / 1000)) u (s\<lparr>last_now := now\<rparr>))"
    by (rule update_best_mono)
  then show ?thesis by (simp add: Frame loop_def Let_def)
next
  case PrimaryAction
  then show ?thesis
    by (simp add: onPrimaryAction_def startPlaying_def resetRun_def Let_def)
next
  case KeyR
  then show ?thesis by (simp add: goToStart_def resetRun_def)
next
  case KeyC
  assume "e \<noteq> KeyC"
  with KeyC show ?thesis by simp
next
  case KeyM
  then show ?thesis by (simp add: toggleMute_def)
qed

lemma run_best_mono: "KeyC \<notin> set es \<Longrightarrow> bestScore s \<le> bestScore (run cv s es)"
proof (induction es rule: rev_induct)
  case Nil
  show ?case by (simp add: run_def)
next
  case (snoc e es)
  then have a: "bestScore s \<le> bestScore (run cv s es)" and e: "e \<noteq> KeyC"
    by auto
  from e have "bestScore (run cv s es) \<le> bestScore (step cv (run cv s es) e)"
    by (rule step_best_mono)
  with a show ?case unfolding run_snoc by (rule order_trans)
qed

text \<open>
  Claim C6 does not hold for every sequence of commands: the key C sets
  \<open>bestScore\<close> to \<open>0\<close> (lines 206--210).
\<close>

theorem clear_best_counterexample:
  "bestScore demo_flight = 7 \<and> bestScore (run demo_canvas demo_flight [KeyC]) = 0"
  by (simp add: run_def clearBest_def demo_flight_def)

text \<open>
  Claim C6, amended.  The best score never decreases across any sequence of
  frames, primary actions and the keys R and M (every event but the key C, which
  clears it): \<open>setBestScore\<close> replaces the value only when the new one is strictly
  greater, so its result is the maximum of the two, and the tick that ends a run
  leaves \<open>bestScore = max bestScore score\<close>.
\<close>

theorem best_score_never_decreases:
  "(KeyC \<notin> set es \<longrightarrow> bestScore s \<le> bestScore (run cv s es))
   \<and> bestScore (setBestScore v s) = max (bestScore s) v
   \<and> (v \<le> bestScore s \<longrightarrow> setBestScore v s = s)
   \<and> (state s = PLAYING \<and> state (update cv dt u s) = GAME_OVER \<longrightarrow>
        bestScore (update cv dt u s) = max (bestScore s) (score (update cv dt u s)))"
proof (intro conjI impI)
  assume "KeyC \<notin> set es"
  then show "bestScore s \<le> bestScore (run cv s es)" by (rule run_best_mono)
next
  show "bestScore (setBestScore v s) = max (bestScore s) v" by (rule setBestScore_best)
next
  assume "v \<le> bestScore s"
  then show "setBestScore v s = s" by (simp add: setBestScore_def)
next
  assume "state s = PLAYING \<and> state (update cv dt u s) = GAME_OVER"
  then show "bestScore (update cv dt u s) = max (bestScore s) (score (update cv dt u s))"
    by (simp add: update_game_over_best)
qed

text \<open>
  A run that ends on the floor with score \<open>3\<close> and best score \<open>1\<close>, followed by the
  keys M and R and a new start.
\<close>

theorem best_score_witness:
  "KeyC \<notin> set [Frame 1020 0, KeyM, KeyR, PrimaryAction]
   \<and> bestScore demo_falling = 1
   \<and> score demo_falling = 3
   \<and> bestScore (run demo_canvas demo_falling [Frame 1020 0, KeyM, KeyR, PrimaryAction]) = 3
   \<and> bestScore demo_falling
       \<le> bestScore (run demo_canvas demo_falling [Frame 1020 0, KeyM, KeyR, PrimaryAction])
   \<and> state demo_falling = PLAYING
   \<and> state (update demo_canvas (1 / 50) 0 demo_falling) = GAME_OVER
   \<and> bestScore (update demo_canvas (1 / 50) 0 demo_falling) = 3
   \<and> bestScore (setBestScore 3 demo_falling) = 3
   \<and> setBestScore 1 demo_falling = demo_falling"
proof -
  have l: "last_now demo_falling = 1000" by (simp add: demo_falling_def)
  have bf: "bestScore demo_falling = 1" and sf: "score demo_falling = 3"
    and p: "state demo_falling = PLAYING"
    by (simp_all add: demo_falling_fields)
  have t: "update demo_canvas (1 / 50) 0 demo_falling =
      demo_falling\<lparr>state := GAME_OVER, bird_y := 556, bird_vy := 0, bestScore := 3,
        stored := Some 3, cues := [Hit]\<rparr>"
    by (simp add: demo_falling_def demo_canvas_def tick_defs constants Let_def)
  have r: "run demo_canvas demo_falling [Frame 1020 0, KeyM, KeyR, PrimaryAction] =
      startPlaying demo_canvas True
        (goToStart demo_canvas (toggleMute
           (update demo_canvas (1 / 50) 0 (demo_falling\<lparr>last_now := 1020\<rparr>))))"
    by (simp add: run_def loop_def Let_def onPrimaryAction_def goToStart_def l)
  have t': "update demo_canvas (1 / 50) 0 (demo_falling\<lparr>last_now := 1020\<rparr>) =
      demo_falling\<lparr>state := GAME_OVER, bird_y := 556, bird_vy := 0, bestScore := 3,
        last_now := 1020, stored := Some 3, cues := [Hit]\<rparr>"
    by (simp add: demo_falling_def demo_canvas_def tick_defs constants Let_def)
  have b: "bestScore (run demo_canvas demo_falling [Frame 1020 0, KeyM, KeyR, PrimaryAction]) = 3"
    unfolding r t'
    by (simp add: startPlaying_def goToStart_def resetRun_def toggleMute_def Let_def)
  have n: "KeyC \<notin> set [Frame 1020 0, KeyM, KeyR, PrimaryAction]" by simp
  have g: "state (update demo_canvas (1 / 50) 0 demo_falling) = GAME_OVER"
    unfolding t by simp
  have sc: "score (update demo_canvas (1 / 50) 0 demo_falling) = 3"
    unfolding t by (simp add: sf)
  note th = best_score_never_decreases [where es = "[Frame 1020 0, KeyM, KeyR, PrimaryAction]"
      and s = demo_falling and cv = demo_canvas and v = 3 and dt = "1 / 50" and u = 0]
  note th1 = best_score_never_decreases [where es = "[]"
      and s = demo_falling and cv = demo_canvas and v = 1 and dt = "1 / 50" and u = 0]
  from th n have le: "bestScore demo_falling
       \<le> bestScore (run demo_canvas demo_falling [Frame 1020 0, KeyM, KeyR, PrimaryAction])"
    by blast
  from th p g have "bestScore (update demo_canvas (1 / 50) 0 demo_falling)
      = max (bestScore demo_falling) (score (update demo_canvas (1 / 50) 0 demo_falling))"
    by blast
  then have m: "bestScore (update demo_canvas (1 / 50) 0 demo_falling) = 3"
    unfolding sc bf by simp
  from th have "bestScore (setBestScore 3 demo_falling) = max (bestScore demo_falling) 3"
    by blast
  then have s3: "bestScore (setBestScore 3 demo_falling) = 3"
    unfolding bf by simp
  have "1 \<le> bestScore demo_falling" unfolding bf by simp
  with th1 have s1: "setBestScore 1 demo_falling = demo_falling"
    by blast
  show ?thesis
    by (intro conjI) (fact n bf sf b le p g m s3 s1)+
qed

section \<open>Scenarios of the specification\<close>

text \<open>
  At score \<open>0\<close> the three difficulty values are the base values: the clamp changes
  nothing.
\<close>

theorem difficulty_at_zero:
  "currentPipeSpeed 0 = 220 \<and> currentPipeGap 0 = 170 \<and> currentSpawnEvery 0 = 135 / 100"
  by (simp add: currentPipeSpeed_def currentPipeGap_def currentSpawnEvery_def clamp_def constants)

text \<open>
  The circle of radius \<open>14\<close> at \<open>(90, 500)\<close> does not meet the rectangle with
  \<open>x\<close> from \<open>100\<close> to \<open>170\<close> and \<open>y\<close> from \<open>0\<close> to \<open>400\<close>; at \<open>(90, 405)\<close> it does.
\<close>

theorem circle_rect_scenario:
  "\<not> circleIntersectsRect 90 500 14 100 0 70 400 \<and> circleIntersectsRect 90 405 14 100 0 70 400"
  by (simp add: circleIntersectsRect_def Let_def)

text \<open>
  A primary action in \<open>GAME_OVER\<close> starts a fresh run: score \<open>0\<close>, no pipes, spawn
  timer \<open>0\<close>, the bird at the start position with the velocity of a jump, state
  \<open>PLAYING\<close>; the best score is kept.
\<close>

theorem restart_after_game_over:
  "state s = GAME_OVER \<Longrightarrow>
   state (onPrimaryAction cv s) = PLAYING
   \<and> score (onPrimaryAction cv s) = 0
   \<and> pipes (onPrimaryAction cv s) = []
   \<and> spawnTimer (onPrimaryAction cv s) = 0
   \<and> bird_y (onPrimaryAction cv s) = real (height cv) * (35 / 100)
   \<and> bird_vy (onPrimaryAction cv s) = JUMP_VELOCITY
   \<and> bestScore (onPrimaryAction cv s) = bestScore s"
  by (simp add: onPrimaryAction_def startPlaying_def resetRun_def Let_def)

text \<open>The restart after the crash of the example above.\<close>

theorem restart_after_game_over_witness:
  "state (update demo_canvas (1 / 50) 0 demo_crash) = GAME_OVER
   \<and> state (onPrimaryAction demo_canvas (update demo_canvas (1 / 50) 0 demo_crash)) = PLAYING
   \<and> score (onPrimaryAction demo_canvas (update demo_canvas (1 / 50) 0 demo_crash)) = 0
   \<and> pipes (onPrimaryAction demo_canvas (update demo_canvas (1 / 50) 0 demo_crash)) = []
   \<and> spawnTimer (onPrimaryAction demo_canvas (update demo_canvas (1 / 50) 0 demo_crash)) = 0
   \<and> bird_y (onPrimaryAction demo_canvas (update demo_canvas (1 / 50) 0 demo_crash)) = 224
   \<and> bird_vy (onPrimaryAction demo_canvas (update demo_canvas (1 / 50) 0 demo_crash)) = - 550
   \<and> bestScore (onPrimaryAction demo_canvas (update demo_canvas (1 / 50) 0 demo_crash)) = 4"
proof -
  have g: "state (update demo_canvas (1 / 50) 0 demo_crash) = GAME_OVER"
    by (simp add: demo_crash_tick)
  have b: "bestScore (update demo_canvas (1 / 50) 0 demo_crash) = 4"
    by (simp add: demo_crash_tick)
  have h: "real (height demo_canvas) * (35 / 100) = 224"
    by (simp add: demo_canvas_def)
  from restart_after_game_over [OF g, of demo_canvas] g b h show ?thesis
    by (simp add: JUMP_VELOCITY_def)
qed

end
